theory Spec2Isabelle
  imports Complex_Main
begin

section \<open>Python values and the builtins the token model uses\<close>

text \<open>
  The module \<open>app/assets/model.py\<close> works on decoded JSON documents and on attributes of
  a dynamically typed record. A decoded value is one of Python's \<open>None\<close>, \<open>bool\<close>,
  \<open>int\<close>, \<open>float\<close>, \<open>str\<close>, \<open>list\<close> or \<open>dict\<close>. Floats are modelled by real
  numbers (binary64 rounding, infinities and NaN are left out); a dict is the list of its
  items in insertion order, looked up with \<open>map_of\<close>.
\<close>

datatype json =
    JNull
  | JBool bool
  | JInt int
  | JFloat real
  | JStr string
  | JArr "json list"
  | JObj "(string \<times> json) list"

text \<open>The exception classes that can travel through the module.\<close>

datatype exn =
    ConnectionError
  | HTTPError
  | JSONDecodeError
  | ContractLogicError
  | ChainCallError
  | KeyError
  | IndexError
  | TypeError
  | ValueError
  | AttributeError
  | ZeroDivisionError

text \<open>Truthiness, and \<open>a or b\<close>.\<close>

fun py_truthy :: "json \<Rightarrow> bool" where
  "py_truthy JNull = False"
| "py_truthy (JBool b) = b"
| "py_truthy (JInt n) = (n \<noteq> 0)"
| "py_truthy (JFloat r) = (r \<noteq> 0)"
| "py_truthy (JStr s) = (s \<noteq> [])"
| "py_truthy (JArr xs) = (xs \<noteq> [])"
| "py_truthy (JObj kvs) = (kvs \<noteq> [])"

definition py_or :: "json \<Rightarrow> json \<Rightarrow> json" where
  "py_or a b = (if py_truthy a then a else b)"

text \<open>\<open>v == n\<close> for an integer \<open>n\<close>: numbers and booleans compare by value.\<close>

fun py_eq_int :: "json \<Rightarrow> int \<Rightarrow> bool" where
  "py_eq_int (JInt m) n = (m = n)"
| "py_eq_int (JFloat r) n = (r = of_int n)"
| "py_eq_int (JBool b) n = ((if b then 1 else 0) = n)"
| "py_eq_int _ n = False"

text \<open>\<open>d.get(k, default)\<close>, \<open>d[k]\<close>, \<open>d.items()\<close>, \<open>v[0]\<close>, \<open>len(v)\<close>, iteration.\<close>

fun py_get :: "json \<Rightarrow> string \<Rightarrow> json \<Rightarrow> exn + json" where
  "py_get (JObj kvs) k dflt = Inr (case map_of kvs k of None \<Rightarrow> dflt | Some v \<Rightarrow> v)"
| "py_get _ k dflt = Inl AttributeError"

fun py_getitem :: "json \<Rightarrow> string \<Rightarrow> exn + json" where
  "py_getitem (JObj kvs) k = (case map_of kvs k of None \<Rightarrow> Inl KeyError | Some v \<Rightarrow> Inr v)"
| "py_getitem _ k = Inl TypeError"

fun py_items :: "json \<Rightarrow> exn + (string \<times> json) list" where
  "py_items (JObj kvs) = Inr kvs"
| "py_items _ = Inl AttributeError"

fun py_getitem0 :: "json \<Rightarrow> exn + json" where
  "py_getitem0 (JArr []) = Inl IndexError"
| "py_getitem0 (JArr (x # xs)) = Inr x"
| "py_getitem0 (JStr []) = Inl IndexError"
| "py_getitem0 (JStr (c # cs)) = Inr (JStr [c])"
| "py_getitem0 (JObj kvs) = Inl KeyError"
| "py_getitem0 _ = Inl TypeError"

fun py_len :: "json \<Rightarrow> exn + nat" where
  "py_len (JArr xs) = Inr (length xs)"
| "py_len (JStr s) = Inr (length s)"
| "py_len (JObj kvs) = Inr (length kvs)"
| "py_len _ = Inl TypeError"

fun py_iter :: "json \<Rightarrow> exn + json list" where
  "py_iter (JArr xs) = Inr xs"
| "py_iter (JStr s) = Inr (map (\<lambda>c. JStr [c]) s)"
| "py_iter (JObj kvs) = Inr (map (\<lambda>kv. JStr (fst kv)) kvs)"
| "py_iter _ = Inl TypeError"

text \<open>\<open>d[k] = v\<close> on a dict: an existing key keeps its place, a new key goes last.\<close>

fun dict_set :: "(string \<times> json) list \<Rightarrow> string \<Rightarrow> json \<Rightarrow> (string \<times> json) list" where
  "dict_set [] k v = [(k, v)]"
| "dict_set ((k', v') # kvs) k v =
     (if k' = k then (k, v) # kvs else (k', v') # dict_set kvs k v)"

text \<open>\<open>str.lower()\<close>, on ASCII letters.\<close>

definition char_lower :: "char \<Rightarrow> char" where
  "char_lower c =
     (case map_of (zip ''ABCDEFGHIJKLMNOPQRSTUVWXYZ'' ''abcdefghijklmnopqrstuvwxyz'') c of
        None \<Rightarrow> c
      | Some l \<Rightarrow> l)"

definition str_lower :: "string \<Rightarrow> string" where
  "str_lower s = map char_lower s"

fun py_lower :: "json \<Rightarrow> exn + string" where
  "py_lower (JStr s) = Inr (str_lower s)"
| "py_lower _ = Inl AttributeError"

text \<open>\<open>needle in v\<close> for a string needle: substring of a str, element of a list, key of
  a dict.\<close>

fun is_substr :: "string \<Rightarrow> string \<Rightarrow> bool" where
  "is_substr p [] = (p = [])"
| "is_substr p (c # cs) = (take (length p) (c # cs) = p \<or> is_substr p cs)"

fun py_contains :: "string \<Rightarrow> json \<Rightarrow> exn + bool" where
  "py_contains p (JStr s) = Inr (is_substr p s)"
| "py_contains p (JArr xs) = Inr (JStr p \<in> set xs)"
| "py_contains p (JObj kvs) = Inr (p \<in> set (map fst kvs))"
| "py_contains p _ = Inl TypeError"

text \<open>
  \<open>str(v)\<close>. The text of an int is its decimal numeral; the texts of floats, lists and
  dicts are supplied by the runtime (\<open>repr\<close>), since they depend on the binary
  representation the model leaves out.
\<close>

text \<open>
  \<open>str_of_nat_fuel f n\<close> writes \<open>n\<close> with at most \<open>f + 1\<close> digits; \<open>n\<close> itself is
  always enough for \<open>f\<close>.
\<close>

definition digit_char :: "nat \<Rightarrow> char" where
  "digit_char d = ''0123456789'' ! d"

fun str_of_nat_fuel :: "nat \<Rightarrow> nat \<Rightarrow> string" where
  "str_of_nat_fuel 0 n = [digit_char (n mod 10)]"
| "str_of_nat_fuel (Suc f) n =
     (if n < 10 then [digit_char n] else str_of_nat_fuel f (n div 10) @ [digit_char (n mod 10)])"

definition str_of_nat :: "nat \<Rightarrow> string" where
  "str_of_nat n = str_of_nat_fuel n n"

definition str_of_int :: "int \<Rightarrow> string" where
  "str_of_int i = (if i < 0 then CHR ''-'' # str_of_nat (nat (- i)) else str_of_nat (nat i))"

fun py_str :: "(json \<Rightarrow> string) \<Rightarrow> json \<Rightarrow> string" where
  "py_str repr JNull = ''None''"
| "py_str repr (JBool b) = (if b then ''True'' else ''False'')"
| "py_str repr (JInt i) = str_of_int i"
| "py_str repr (JStr s) = s"
| "py_str repr v = repr v"

text \<open>\<open>s.replace(",", "")\<close>.\<close>

definition strip_commas :: "string \<Rightarrow> string" where
  "strip_commas s = filter (\<lambda>c. c \<noteq> CHR '','') s"

text \<open>
  \<open>float(s)\<close> on the plain decimal syntax: an optional sign, digits, an optional point
  and more digits, with at least one digit. Anything else raises \<open>ValueError\<close> here
  (exponents, \<open>inf\<close>, \<open>nan\<close>, underscores and surrounding blanks, which CPython also
  accepts, are outside the model).
\<close>

definition is_digit :: "char \<Rightarrow> bool" where
  "is_digit c = (48 \<le> (of_char c :: nat) \<and> (of_char c :: nat) \<le> 57)"

definition digits_val :: "string \<Rightarrow> nat" where
  "digits_val s = foldl (\<lambda>acc c. 10 * acc + ((of_char c :: nat) - 48)) 0 s"

definition unsigned_float :: "string \<Rightarrow> exn + real" where
  "unsigned_float s =
     (let ip = takeWhile (\<lambda>c. c \<noteq> CHR ''.'') s;
          rest = dropWhile (\<lambda>c. c \<noteq> CHR ''.'') s;
          fp = (case rest of [] \<Rightarrow> [] | _ # r \<Rightarrow> r)
      in if list_all is_digit ip \<and> list_all is_digit fp \<and> (ip \<noteq> [] \<or> fp \<noteq> [])
         then Inr (real (digits_val ip) + real (digits_val fp) / 10 ^ length fp)
         else Inl ValueError)"

definition py_float :: "string \<Rightarrow> exn + real" where
  "py_float s =
     (case s of
        [] \<Rightarrow> Inl ValueError
      | c # r \<Rightarrow>
          if c = CHR ''-'' then (case unsigned_float r of Inl e \<Rightarrow> Inl e | Inr x \<Rightarrow> Inr (- x))
          else if c = CHR ''+'' then unsigned_float r
          else unsigned_float s)"

text \<open>\<open>10 ** d\<close> and \<open>a / b\<close> on numbers.\<close>

fun py_pow10 :: "json \<Rightarrow> exn + json" where
  "py_pow10 (JInt n) =
     Inr (if 0 \<le> n then JInt (10 ^ nat n) else JFloat (1 / 10 ^ nat (- n)))"
| "py_pow10 (JBool b) = Inr (JInt (if b then 10 else 1))"
| "py_pow10 (JFloat r) = Inr (JFloat (10 powr r))"
| "py_pow10 _ = Inl TypeError"

fun num_val :: "json \<Rightarrow> real option" where
  "num_val (JInt n) = Some (of_int n)"
| "num_val (JFloat r) = Some r"
| "num_val (JBool b) = Some (if b then 1 else 0)"
| "num_val _ = None"

definition py_truediv :: "json \<Rightarrow> json \<Rightarrow> exn + json" where
  "py_truediv a b =
     (case (num_val a, num_val b) of
        (Some x, Some y) \<Rightarrow> if y = 0 then Inl ZeroDivisionError else Inr (JFloat (x / y))
      | _ \<Rightarrow> Inl TypeError)"


section \<open>Settings, the outside world, and the cache\<close>

text \<open>
  The constants imported from \<open>app.settings\<close> are parameters of the model. The address
  collections are lists tested with \<open>in\<close>. \<open>ROUTER_ADDRESS\<close> is the contract that
  \<open>router_getAmountOut\<close> below stands for.
\<close>

record settings =
  STABLE_TOKEN_ADDRESS :: string
  BLUECHIP_TOKEN_ADDRESSES :: "string list"
  IGNORED_TOKEN_ADDRESSES :: "string list"
  ROUTER_ADDRESS :: string
  TOKENLISTS :: "string list"

text \<open>
  What the network answers. \<open>http_get_json url\<close> is the outcome of
  \<open>requests.get(url).json()\<close>: an exception of the transport or of the decoder, or the
  decoded body. \<open>router_getAmountOut\<close> is the read call
  \<open>getAmountOut(uint256,address,address)(uint256,bool)\<close> on the router;
  \<open>multicall_identity\<close> is the batch \<open>name()\<close>, \<open>symbol()\<close>, \<open>decimals()\<close>
  (string, string, uint8) on a token address; \<open>eth_chain_id\<close> is \<open>w3.eth.chain_id\<close>.
  Each source answers a request the same way every time it is asked. \<open>py_repr\<close> is the
  text \<open>str\<close> gives for floats and containers.
\<close>

record world =
  http_get_json :: "string \<Rightarrow> exn + json"
  router_getAmountOut :: "json \<Rightarrow> string \<Rightarrow> string \<Rightarrow> exn + (nat \<times> bool)"
  multicall_identity :: "string \<Rightarrow> exn + (string \<times> string \<times> nat)"
  eth_chain_id :: "exn + int"
  py_repr :: "json \<Rightarrow> string"

text \<open>
  The \<open>Token\<close> model. The primary key is a string; every other attribute holds whatever
  value was assigned to it.
\<close>

record token =
  address :: string
  name :: json
  symbol :: json
  decimals :: json
  logoURI :: json
  price :: json
  stable :: json
  liquid_staked_address :: json

text \<open>
  The calls that leave the process, and the log lines, in the order they happen.
\<close>

datatype event =
    HttpGet string
  | RouterCall json string string
  | MulticallCall string
  | ChainIdRead
  | LogError exn
  | LogDebug string

text \<open>
  The cache (\<open>Token.load\<close>, \<open>Token.create\<close>, \<open>save\<close>) is a map from primary key to
  record; it keeps the attribute values as assigned and does not fail.
\<close>

record state =
  store :: "string \<rightharpoonup> token"
  trace :: "event list"

definition emit :: "event \<Rightarrow> state \<Rightarrow> state" where
  "emit ev s = s\<lparr>trace := trace s @ [ev]\<rparr>"

definition save :: "token \<Rightarrow> state \<Rightarrow> state" where
  "save t s = s\<lparr>store := (store s)(address t \<mapsto> t)\<rparr>"

definition DEXSCREENER_ENDPOINT :: string where
  "DEXSCREENER_ENDPOINT = ''https://api.dexscreener.com/latest/dex/tokens/''"

definition DEFILLAMA_ENDPOINT :: string where
  "DEFILLAMA_ENDPOINT = ''https://coins.llama.fi/prices/current/''"

section \<open>The price sources\<close>

text \<open>\<open>defillama_price_in_stables\<close>: the first coin of the answer, its \<open>price\<close> or 0.\<close>

definition defillama_price_in_stables ::
  "settings \<Rightarrow> world \<Rightarrow> token \<Rightarrow> state \<Rightarrow> (exn + json) \<times> state" where
  "defillama_price_in_stables cfg env self s =
     (if address self = STABLE_TOKEN_ADDRESS cfg then (Inr (JFloat 1), s)
      else
        let chain_token = ''kava:'' @ str_lower (address self);
            url = DEFILLAMA_ENDPOINT @ chain_token;
            s1 = emit (HttpGet url) s
        in case http_get_json env url of
             Inl e \<Rightarrow> (Inl e, s1)
           | Inr res \<Rightarrow>
               (case py_get res ''coins'' (JObj []) of
                  Inl e \<Rightarrow> (Inl e, s1)
                | Inr coins \<Rightarrow>
                    (case py_items coins of
                       Inl e \<Rightarrow> (Inl e, s1)
                     | Inr [] \<Rightarrow> (Inr (JInt 0), s1)
                     | Inr (kv # _) \<Rightarrow>
                         (case py_get (snd kv) ''price'' (JInt 0) of
                            Inl e \<Rightarrow> (Inl e, s1)
                          | Inr p \<Rightarrow> (Inr p, s1)))))"

text \<open>
  \<open>dexscreener_price_in_stables\<close>. \<open>pairs_in_kava\<close> is the comprehension
  \<open>[pair for pair in pairs if pair["chainId"] == "kava"]\<close>, which raises as soon as one
  pair has no \<open>chainId\<close>; \<open>pair_price\<close> is
  \<open>float(str(pair.get("priceUsd") or 0).replace(",", ""))\<close>.
\<close>

fun pairs_in_kava :: "json list \<Rightarrow> exn + json list" where
  "pairs_in_kava [] = Inr []"
| "pairs_in_kava (pair # pairs) =
     (case py_getitem pair ''chainId'' of
        Inl e \<Rightarrow> Inl e
      | Inr c \<Rightarrow>
          (case pairs_in_kava pairs of
             Inl e \<Rightarrow> Inl e
           | Inr rest \<Rightarrow> Inr (if c = JStr ''kava'' then pair # rest else rest)))"

definition pair_price :: "world \<Rightarrow> json \<Rightarrow> exn + json" where
  "pair_price env pair =
     (case py_get pair ''priceUsd'' JNull of
        Inl e \<Rightarrow> Inl e
      | Inr v \<Rightarrow>
          (let txt = strip_commas (py_str (py_repr env) (py_or v (JInt 0)))
           in case py_float txt of Inl e \<Rightarrow> Inl e | Inr x \<Rightarrow> Inr (JFloat x)))"

definition dexscreener_price_in_stables ::
  "settings \<Rightarrow> world \<Rightarrow> token \<Rightarrow> state \<Rightarrow> (exn + json) \<times> state" where
  "dexscreener_price_in_stables cfg env self s =
     (if address self = STABLE_TOKEN_ADDRESS cfg then (Inr (JFloat 1), s)
      else
        let url = DEXSCREENER_ENDPOINT @ address self;
            s1 = emit (HttpGet url) s
        in case http_get_json env url of
             Inl e \<Rightarrow> (Inl e, s1)
           | Inr res \<Rightarrow>
               (case py_get res ''pairs'' JNull of
                  Inl e \<Rightarrow> (Inl e, s1)
                | Inr v \<Rightarrow>
                    (let pairs = py_or v (JArr [])
                     in case py_len pairs of
                          Inl e \<Rightarrow> (Inl e, s1)
                        | Inr n \<Rightarrow>
                            if n = 0 then (Inr (JInt 0), s1)
                            else
                              (case py_iter pairs of
                                 Inl e \<Rightarrow> (Inl e, s1)
                               | Inr items \<Rightarrow>
                                   (case pairs_in_kava items of
                                      Inl e \<Rightarrow> (Inl e, s1)
                                    | Inr in_kava \<Rightarrow>
                                        if length in_kava = 0
                                        then (case py_getitem0 pairs of
                                                Inl e \<Rightarrow> (Inl e, s1)
                                              | Inr pair \<Rightarrow> (pair_price env pair, s1))
                                        else (case in_kava of
                                                [] \<Rightarrow> (Inl IndexError, s1)
                                              | pair # _ \<Rightarrow> (pair_price env pair, s1)))))))"

text \<open>
  \<open>aggregated_price_in_stables\<close>: the screener first; the oracle when the screener gave
  0 or the token is a bluechip; the screener's price again when the oracle raises one of
  the two exceptions named in the \<open>except\<close> clause.
\<close>

definition aggregated_price_in_stables ::
  "settings \<Rightarrow> world \<Rightarrow> token \<Rightarrow> state \<Rightarrow> (exn + json) \<times> state" where
  "aggregated_price_in_stables cfg env self s =
     (case dexscreener_price_in_stables cfg env self s of
        (Inl e, s1) \<Rightarrow> (Inl e, s1)
      | (Inr p, s1) \<Rightarrow>
          if \<not> py_eq_int p 0 \<and> address self \<notin> set (BLUECHIP_TOKEN_ADDRESSES cfg)
          then (Inr p, s1)
          else
            (case defillama_price_in_stables cfg env self s1 of
               (Inr q, s2) \<Rightarrow> (Inr q, s2)
             | (Inl e, s2) \<Rightarrow>
                 if e = HTTPError \<or> e = JSONDecodeError then (Inr p, s2)
                 else (Inl e, s2)))"


section \<open>Lookup, creation from chain, and the price update\<close>

text \<open>
  \<open>Token.create(address=address, **data)\<close> in \<open>from_chain\<close>: the three chain reads
  fill \<open>name\<close>, \<open>symbol\<close> and \<open>decimals\<close>; \<open>price\<close> and \<open>stable\<close> take their
  declared default 0, the other attributes are unset.
\<close>

definition new_token :: "string \<Rightarrow> string \<Rightarrow> string \<Rightarrow> nat \<Rightarrow> token" where
  "new_token a n sy d =
     \<lparr>address = a, name = JStr n, symbol = JStr sy, decimals = JInt (int d),
      logoURI = JNull, price = JInt 0, stable = JInt 0, liquid_staked_address = JNull\<rparr>"

text \<open>
  \<open>_update_price\<close>, \<open>chain_price_in_stables\<close>, \<open>find\<close> and \<open>from_chain\<close> call each
  other: pricing on the router looks the stable token up, a lookup that misses creates
  the record from chain, and creation prices the new record. \<open>update_price\<close> returns the
  record with its new price; an exception leaves the state as it was when it was raised.
  The recursion ends because the record of the stable token is in the cache after its
  creation; \<open>call_rank\<close> is the measure.
\<close>

fun call_rank ::
  "(settings \<times> world \<times> token \<times> state + settings \<times> world \<times> token \<times> state) +
   (settings \<times> world \<times> string option \<times> state + settings \<times> world \<times> string \<times> state)
   \<Rightarrow> nat" where
  "call_rank (Inl (Inl (cfg, env, self, s))) =
     (if store s (str_lower (STABLE_TOKEN_ADDRESS cfg)) \<noteq> None then 2 else 6)"
| "call_rank (Inl (Inr (cfg, env, self, s))) =
     (if store s (str_lower (STABLE_TOKEN_ADDRESS cfg)) \<noteq> None then 1 else 5)"
| "call_rank (Inr (Inl (cfg, env, None, s))) = 0"
| "call_rank (Inr (Inl (cfg, env, Some a, s))) =
     (if str_lower a = str_lower (STABLE_TOKEN_ADDRESS cfg)
      then (if store s (str_lower (STABLE_TOKEN_ADDRESS cfg)) \<noteq> None then 0 else 4)
      else (if store s (str_lower (STABLE_TOKEN_ADDRESS cfg)) \<noteq> None then 4 else 8))"
| "call_rank (Inr (Inr (cfg, env, a, s))) =
     (if store s (str_lower (STABLE_TOKEN_ADDRESS cfg)) \<noteq> None then 3
      else if str_lower a = str_lower (STABLE_TOKEN_ADDRESS cfg) then 3 else 7)"

function update_price :: "settings \<Rightarrow> world \<Rightarrow> token \<Rightarrow> state \<Rightarrow> (exn + token) \<times> state"
  and chain_price_in_stables ::
    "settings \<Rightarrow> world \<Rightarrow> token \<Rightarrow> state \<Rightarrow> (exn + json) \<times> state"
  and find_token ::
    "settings \<Rightarrow> world \<Rightarrow> string option \<Rightarrow> state \<Rightarrow> (exn + token option) \<times> state"
  and from_chain :: "settings \<Rightarrow> world \<Rightarrow> string \<Rightarrow> state \<Rightarrow> (exn + token) \<times> state"
where
  "update_price cfg env self s =
     (case aggregated_price_in_stables cfg env self s of
        (Inl e, s1) \<Rightarrow> (Inl e, s1)
      | (Inr p, s1) \<Rightarrow>
          if py_eq_int p 0
          then (case chain_price_in_stables cfg env (self\<lparr>price := p\<rparr>) s1 of
                  (Inl e, s2) \<Rightarrow> (Inl e, s2)
                | (Inr q, s2) \<Rightarrow> (Inr (self\<lparr>price := q\<rparr>), save (self\<lparr>price := q\<rparr>) s2))
          else (Inr (self\<lparr>price := p\<rparr>), save (self\<lparr>price := p\<rparr>) s1))"
| "chain_price_in_stables cfg env self s =
     (if address self = STABLE_TOKEN_ADDRESS cfg then (Inr (JFloat 1), s)
      else
        (case find_token cfg env (Some (STABLE_TOKEN_ADDRESS cfg)) s of
           (Inl e, s1) \<Rightarrow> (Inl e, s1)
         | (Inr None, s1) \<Rightarrow> (Inl AttributeError, s1)
         | (Inr (Some stablecoin), s1) \<Rightarrow>
             (case py_pow10 (decimals self) of
                Inl e \<Rightarrow> (Inl e, s1)
              | Inr amount_in \<Rightarrow>
                  (let s2 = emit (RouterCall amount_in (address self) (address stablecoin)) s1
                   in case router_getAmountOut env amount_in (address self)
                             (address stablecoin) of
                        Inl e \<Rightarrow>
                          if e = ContractLogicError then (Inr (JInt 0), s2) else (Inl e, s2)
                      | Inr (amount, is_stable) \<Rightarrow>
                          (case py_pow10 (decimals stablecoin) of
                             Inl e \<Rightarrow> (Inl e, s2)
                           | Inr scale \<Rightarrow>
                               (case py_truediv (JInt (int amount)) scale of
                                  Inl e \<Rightarrow> (Inl e, s2)
                                | Inr q \<Rightarrow> (Inr q, s2)))))))"
| "find_token cfg env addr s =
     (case addr of
        None \<Rightarrow> (Inr None, s)
      | Some a \<Rightarrow>
          (case store s (str_lower a) of
             Some t \<Rightarrow> (Inr (Some t), s)
           | None \<Rightarrow>
               (case from_chain cfg env (str_lower a) s of
                  (Inl e, s1) \<Rightarrow> (Inl e, s1)
                | (Inr t, s1) \<Rightarrow> (Inr (Some t), s1))))"
| "from_chain cfg env addr s =
     (let a = str_lower addr;
          s1 = emit (MulticallCall a) s
      in case multicall_identity env a of
           Inl e \<Rightarrow> (Inl e, s1)
         | Inr (n, sy, d) \<Rightarrow>
             (case update_price cfg env (new_token a n sy d) (save (new_token a n sy d) s1) of
                (Inl e, s2) \<Rightarrow> (Inl e, s2)
              | (Inr t, s2) \<Rightarrow> (Inr t, emit (LogDebug ''Fetched'') s2)))"
  by pat_completeness auto
termination
proof (relation "measure call_rank", goal_cases)
  case 1
  show ?case by simp
next
  case (2 cfg env self s x y b)
  have d: "store (snd (dexscreener_price_in_stables cfg env self s)) = store s"
    by (simp add: dexscreener_price_in_stables_def emit_def Let_def
        split: sum.splits list.splits)
  have l: "store (snd (defillama_price_in_stables cfg env self s')) = store s'" for s'
    by (simp add: defillama_price_in_stables_def emit_def Let_def
        split: sum.splits list.splits)
  have "store (snd (aggregated_price_in_stables cfg env self s)) = store s"
  proof (cases "dexscreener_price_in_stables cfg env self s")
    case (Pair r s1)
    with d have s1: "store s1 = store s" by simp
    show ?thesis
    proof (cases r)
      case (Inl e)
      with Pair s1 show ?thesis by (simp add: aggregated_price_in_stables_def)
    next
      case (Inr p)
      obtain r2 s2 where o: "defillama_price_in_stables cfg env self s1 = (r2, s2)"
        by (cases "defillama_price_in_stables cfg env self s1")
      with l [of s1] s1 have "store s2 = store s" by simp
      with Pair Inr o s1 show ?thesis
        by (cases r2) (simp_all add: aggregated_price_in_stables_def)
    qed
  qed
  with 2(1) [symmetric] have "store y = store s" by simp
  then show ?case by simp
next
  case (3 cfg env self s)
  show ?case by simp
next
  case (4 cfg env addr s a)
  have "char_lower (char_lower c) = char_lower c" for c
    by (simp add: char_lower_def)
  then have "str_lower (str_lower a) = str_lower a"
    by (simp add: str_lower_def)
  with 4 show ?case by auto
next
  case (5 cfg env addr s x xa b xb y xc ya)
  then show ?case by (auto simp: save_def emit_def new_token_def)
qed

declare update_price.simps [simp del] chain_price_in_stables.simps [simp del]
  find_token.simps [simp del] from_chain.simps [simp del]

section \<open>Ingestion of the token lists\<close>

text \<open>
  \<open>Token.create(**token_data)\<close>: every key of the entry becomes an attribute; the model
  keeps the declared fields, with their defaults where the entry has no such key.
\<close>

definition kwarg :: "(string \<times> json) list \<Rightarrow> string \<Rightarrow> json \<Rightarrow> json" where
  "kwarg kvs k dflt = (case map_of kvs k of None \<Rightarrow> dflt | Some v \<Rightarrow> v)"

definition token_of_kwargs :: "string \<Rightarrow> (string \<times> json) list \<Rightarrow> token" where
  "token_of_kwargs a kvs =
     \<lparr>address = a, name = kwarg kvs ''name'' JNull, symbol = kwarg kvs ''symbol'' JNull,
      decimals = kwarg kvs ''decimals'' JNull, logoURI = kwarg kvs ''logoURI'' JNull,
      price = kwarg kvs ''price'' (JInt 0), stable = kwarg kvs ''stable'' (JInt 0),
      liquid_staked_address = kwarg kvs ''liquid_staked_address'' JNull\<rparr>"

text \<open>
  The body of the inner loop of \<open>from_tokenlists\<close>, for one entry \<open>token_data\<close>, in
  two parts. \<open>entry_kwargs\<close> is the part before \<open>cls.create\<close>: the chain filter, the
  lower-casing of the address, the ignore list and the lower-casing of
  \<open>liquid_staked_address\<close>; it yields \<open>None\<close> where the code says \<open>continue\<close> and the
  updated entry otherwise. \<open>entry_load\<close> is the rest: the record is created, tagged
  stable when \<open>"stablecoin" in token_data["tags"][0]\<close>, and priced.
\<close>

definition entry_kwargs ::
  "settings \<Rightarrow> int \<Rightarrow> json \<Rightarrow> state
   \<Rightarrow> (exn + (string \<times> (string \<times> json) list) option) \<times> state" where
  "entry_kwargs cfg our_chain_id token_data s =
     (case py_get token_data ''chainId'' JNull of
        Inl e \<Rightarrow> (Inl e, s)
      | Inr c \<Rightarrow>
          if \<not> py_eq_int c our_chain_id
          then (case py_getitem token_data ''symbol'' of
                  Inl e \<Rightarrow> (Inl e, s)
                | Inr sy \<Rightarrow> (Inr None, emit (LogDebug ''Token not in chain'') s))
          else
            (case py_getitem token_data ''address'' of
               Inl e \<Rightarrow> (Inl e, s)
             | Inr a \<Rightarrow>
                 (case py_lower a of
                    Inl e \<Rightarrow> (Inl e, s)
                  | Inr addr \<Rightarrow>
                      (case token_data of
                         JObj kvs0 \<Rightarrow>
                           (let kvs1 = dict_set kvs0 ''address'' (JStr addr)
                            in if addr \<in> set (IGNORED_TOKEN_ADDRESSES cfg) then (Inr None, s)
                               else
                                 (case py_getitem (JObj kvs1) ''liquid_staked_address'' of
                                    Inl e \<Rightarrow> (Inl e, s)
                                  | Inr l \<Rightarrow>
                                      if py_truthy l
                                      then (case py_lower l of
                                              Inl e \<Rightarrow> (Inl e, s)
                                            | Inr l' \<Rightarrow>
                                                (Inr (Some (addr,
                                                   dict_set kvs1 ''liquid_staked_address''
                                                     (JStr l'))), s))
                                      else (Inr (Some (addr, kvs1)), s)))
                       | _ \<Rightarrow> (Inl TypeError, s)))))"

definition entry_load ::
  "settings \<Rightarrow> world \<Rightarrow> string \<Rightarrow> (string \<times> json) list \<Rightarrow> state \<Rightarrow> (exn + unit) \<times> state" where
  "entry_load cfg env addr kvs s =
     (let tok = token_of_kwargs addr kvs;
          s1 = save tok s
      in case py_getitem (JObj kvs) ''tags'' of
           Inl e \<Rightarrow> (Inl e, s1)
         | Inr tags \<Rightarrow>
             (case py_getitem0 tags of
                Inl e \<Rightarrow> (Inl e, s1)
              | Inr tag0 \<Rightarrow>
                  (case py_contains ''stablecoin'' tag0 of
                     Inl e \<Rightarrow> (Inl e, s1)
                   | Inr b \<Rightarrow>
                       (case update_price cfg env
                               (tok\<lparr>stable := JInt (if b then 1 else 0)\<rparr>) s1 of
                          (Inl e, s2) \<Rightarrow> (Inl e, s2)
                        | (Inr t, s2) \<Rightarrow> (Inr (), emit (LogDebug ''Loaded'') s2)))))"

text \<open>
  One iteration: the result \<open>Inr ()\<close> is its normal end (also by \<open>continue\<close>),
  \<open>Inl e\<close> an exception leaving the loop.
\<close>

definition tokenlist_entry ::
  "settings \<Rightarrow> world \<Rightarrow> int \<Rightarrow> json \<Rightarrow> state \<Rightarrow> (exn + unit) \<times> state" where
  "tokenlist_entry cfg env our_chain_id token_data s =
     (case entry_kwargs cfg our_chain_id token_data s of
        (Inl e, s1) \<Rightarrow> (Inl e, s1)
      | (Inr None, s1) \<Rightarrow> (Inr (), s1)
      | (Inr (Some (addr, kvs)), s1) \<Rightarrow> entry_load cfg env addr kvs s1)"

text \<open>The inner loop: the first exception ends it.\<close>

fun tokenlist_entries ::
  "settings \<Rightarrow> world \<Rightarrow> int \<Rightarrow> json list \<Rightarrow> state \<Rightarrow> (exn + unit) \<times> state" where
  "tokenlist_entries cfg env our_chain_id [] s = (Inr (), s)"
| "tokenlist_entries cfg env our_chain_id (token_data # rest) s =
     (case tokenlist_entry cfg env our_chain_id token_data s of
        (Inl e, s1) \<Rightarrow> (Inl e, s1)
      | (Inr u, s1) \<Rightarrow> tokenlist_entries cfg env our_chain_id rest s1)"

text \<open>The \<open>try\<close> block of one feed.\<close>

definition tokenlist_feed ::
  "settings \<Rightarrow> world \<Rightarrow> int \<Rightarrow> string \<Rightarrow> state \<Rightarrow> (exn + unit) \<times> state" where
  "tokenlist_feed cfg env our_chain_id tlist s =
     (let s1 = emit (HttpGet tlist) s
      in case http_get_json env tlist of
           Inl e \<Rightarrow> (Inl e, s1)
         | Inr res \<Rightarrow>
             (case py_getitem res ''tokens'' of
                Inl e \<Rightarrow> (Inl e, s1)
              | Inr toks \<Rightarrow>
                  (case py_iter toks of
                     Inl e \<Rightarrow> (Inl e, s1)
                   | Inr entries \<Rightarrow> tokenlist_entries cfg env our_chain_id entries s1)))"

text \<open>The outer loop: \<open>except Exception\<close> logs the error and goes on to the next feed.\<close>

fun tokenlist_feeds :: "settings \<Rightarrow> world \<Rightarrow> int \<Rightarrow> string list \<Rightarrow> state \<Rightarrow> state" where
  "tokenlist_feeds cfg env our_chain_id [] s = s"
| "tokenlist_feeds cfg env our_chain_id (tlist # rest) s =
     (case tokenlist_feed cfg env our_chain_id tlist s of
        (Inl e, s1) \<Rightarrow> tokenlist_feeds cfg env our_chain_id rest (emit (LogError e) s1)
      | (Inr u, s1) \<Rightarrow> tokenlist_feeds cfg env our_chain_id rest s1)"

definition from_tokenlists :: "settings \<Rightarrow> world \<Rightarrow> state \<Rightarrow> (exn + unit) \<times> state" where
  "from_tokenlists cfg env s =
     (let s0 = emit ChainIdRead s
      in case eth_chain_id env of
           Inl e \<Rightarrow> (Inl e, s0)
         | Inr our_chain_id \<Rightarrow>
             (Inr (), tokenlist_feeds cfg env our_chain_id (TOKENLISTS cfg) s0))"


section \<open>A predicate on prices\<close>

text \<open>A price is non-negative when it is a number that is at least 0.\<close>

definition nonneg_price :: "json \<Rightarrow> bool" where
  "nonneg_price v = (case num_val v of None \<Rightarrow> False | Some x \<Rightarrow> 0 \<le> x)"

section \<open>Concrete settings and worlds\<close>

text \<open>
  Small instances on which the functions are evaluated: the stable token is \<open>0xs\<close>, the
  only bluechip is \<open>0xb\<close>. In \<open>world_down\<close> every upstream call raises.
\<close>

definition ex_settings :: settings where
  "ex_settings =
     \<lparr>STABLE_TOKEN_ADDRESS = ''0xs'', BLUECHIP_TOKEN_ADDRESSES = [''0xb''],
      IGNORED_TOKEN_ADDRESSES = [], ROUTER_ADDRESS = ''0xr'', TOKENLISTS = [''feed'']\<rparr>"

definition world_down :: world where
  "world_down =
     \<lparr>http_get_json = (\<lambda>url. Inl ConnectionError),
      router_getAmountOut = (\<lambda>a i out. Inl ConnectionError),
      multicall_identity = (\<lambda>a. Inl ChainCallError),
      eth_chain_id = Inl ConnectionError,
      py_repr = (\<lambda>v. [])\<rparr>"

definition ex_token :: "string \<Rightarrow> token" where
  "ex_token a = new_token a ''Tok'' ''TOK'' 18"

definition empty_state :: state where
  "empty_state = \<lparr>store = Map.empty, trace = []\<rparr>"

text \<open>
  \<open>screener_world a res\<close> answers the screener's request for token \<open>a\<close> with the
  document \<open>res\<close>; every other call raises.
\<close>

definition screener_world :: "string \<Rightarrow> json \<Rightarrow> world" where
  "screener_world a res =
     world_down\<lparr>http_get_json :=
       (\<lambda>url. if url = DEXSCREENER_ENDPOINT @ a then Inr res else Inl ConnectionError)\<rparr>"


definition null_pairs :: json where
  "null_pairs = JObj [(''pairs'', JNull)]"

definition unpriced_pair :: json where
  "unpriced_pair = JObj [(''pairs'', JArr [JObj [(''chainId'', JStr ''kava''), (''priceUsd'', JNull)]])]"

text \<open>
  \<open>market_world a screener oracle\<close> answers the screener's and the oracle's request for
  token \<open>a\<close>; every other call raises.
\<close>

definition market_world :: "string \<Rightarrow> json \<Rightarrow> json \<Rightarrow> world" where
  "market_world a screener oracle =
     world_down\<lparr>http_get_json :=
       (\<lambda>url. if url = DEXSCREENER_ENDPOINT @ a then Inr screener
              else if url = DEFILLAMA_ENDPOINT @ ''kava:'' @ a then Inr oracle
              else Inl ConnectionError)\<rparr>"

definition one_pair :: "string \<Rightarrow> json" where
  "one_pair txt = JObj [(''pairs'', JArr [JObj [(''chainId'', JStr ''kava''), (''priceUsd'', JStr txt)]])]"


text \<open>
  \<open>chain_world w r d\<close> is the world \<open>w\<close> with a chain behind it: the router answers
  every quote with \<open>r\<close>, and every token contract reports the name \<open>Coin\<close>, the symbol
  \<open>CN\<close> and \<open>d\<close> decimals.
\<close>

definition chain_world :: "world \<Rightarrow> exn + (nat \<times> bool) \<Rightarrow> nat \<Rightarrow> world" where
  "chain_world w r d =
     w\<lparr>router_getAmountOut := (\<lambda>amount_in token_in token_out. r),
       multicall_identity := (\<lambda>a. Inr (''Coin'', ''CN'', d))\<rparr>"

text \<open>
  Documents without data, a state whose cache holds the stable token with 6 decimals, and
  a world in which the screener answers for token \<open>a\<close> and every other request raises
  \<open>e\<close>.
\<close>

definition no_pairs :: json where
  "no_pairs = JObj [(''pairs'', JArr [])]"

definition no_coins :: json where
  "no_coins = JObj [(''coins'', JObj [])]"

definition stable_state :: state where
  "stable_state = save (new_token ''0xs'' ''Stable'' ''USD'' 6) empty_state"

definition oracle_fault_world :: "string \<Rightarrow> json \<Rightarrow> exn \<Rightarrow> world" where
  "oracle_fault_world a screener e =
     world_down\<lparr>http_get_json :=
       (\<lambda>url. if url = DEXSCREENER_ENDPOINT @ a then Inr screener else Inl e)\<rparr>"

text \<open>A cache that holds the stable token and the token \<open>0xa\<close>.\<close>

definition two_token_state :: state where
  "two_token_state = save (ex_token ''0xa'') stable_state"

text \<open>
  A feed world: the chain id is 2222, the list \<open>feed\<close> is the document \<open>doc\<close>, and the
  screener quotes the token \<open>0xa\<close> at 2. \<open>good_entry\<close> is a complete entry for
  \<open>0xA\<close> on this chain, \<open>bad_entry\<close> an entry on this chain that has no address.
\<close>

definition feed_world :: "json \<Rightarrow> world" where
  "feed_world doc =
     world_down\<lparr>http_get_json :=
       (\<lambda>url. if url = ''feed'' then Inr doc
              else if url = DEXSCREENER_ENDPOINT @ ''0xa'' then Inr (one_pair ''2'')
              else Inl ConnectionError),
       eth_chain_id := Inr 2222\<rparr>"

definition good_entry :: json where
  "good_entry =
     JObj [(''chainId'', JInt 2222), (''address'', JStr ''0xA''), (''name'', JStr ''A''),
           (''symbol'', JStr ''A''), (''decimals'', JInt 18),
           (''liquid_staked_address'', JNull), (''tags'', JArr [JStr ''stablecoin''])]"

definition bad_entry :: json where
  "bad_entry = JObj [(''chainId'', JInt 2222), (''symbol'', JStr ''BAD'')]"

definition feed_of :: "json list \<Rightarrow> json" where
  "feed_of entries = JObj [(''tokens'', JArr entries)]"

definition good_kwargs :: "(string \<times> json) list" where
  "good_kwargs =
     [(''chainId'', JInt 2222), (''address'', JStr ''0xa''), (''name'', JStr ''A''),
      (''symbol'', JStr ''A''), (''decimals'', JInt 18),
      (''liquid_staked_address'', JNull), (''tags'', JArr [JStr ''stablecoin''])]"

section \<open>Basic facts about the state\<close>

lemma trace_save [simp]: "trace (save t s) = trace s"
  by (simp add: save_def)

lemma store_save [simp]: "store (save t s) = (store s)(address t \<mapsto> t)"
  by (simp add: save_def)

lemma trace_emit [simp]: "trace (emit ev s) = trace s @ [ev]"
  by (simp add: emit_def)

lemma store_emit [simp]: "store (emit ev s) = store s"
  by (simp add: emit_def)

section \<open>The peg of the reference asset\<close>

text \<open>
  Claim C2. For the token whose address is the configured stable address, the screener
  pass, the aggregated pass and the whole price update give exactly 1.0 in every world,
  and the update adds no event to the trace: no screener, oracle or router call is made,
  so the answer is the same when every upstream client raises.
\<close>

theorem reference_token_pegged:
  assumes "address self = STABLE_TOKEN_ADDRESS cfg"
  shows "dexscreener_price_in_stables cfg env self s = (Inr (JFloat 1), s)
       \<and> aggregated_price_in_stables cfg env self s = (Inr (JFloat 1), s)
       \<and> update_price cfg env self s
           = (Inr (self\<lparr>price := JFloat 1\<rparr>), save (self\<lparr>price := JFloat 1\<rparr>) s)
       \<and> trace (snd (update_price cfg env self s)) = trace s"
proof -
  have d: "dexscreener_price_in_stables cfg env self s = (Inr (JFloat 1), s)"
    using assms by (simp add: dexscreener_price_in_stables_def)
  have l: "defillama_price_in_stables cfg env self s = (Inr (JFloat 1), s)"
    using assms by (simp add: defillama_price_in_stables_def)
  have a: "aggregated_price_in_stables cfg env self s = (Inr (JFloat 1), s)"
    by (simp add: aggregated_price_in_stables_def d l)
  have u: "update_price cfg env self s
             = (Inr (self\<lparr>price := JFloat 1\<rparr>), save (self\<lparr>price := JFloat 1\<rparr>) s)"
    by (simp add: update_price.simps a)
  from d a u show ?thesis by simp
qed

theorem reference_token_pegged_witness:
  "update_price ex_settings world_down (ex_token ''0xs'') empty_state
     = (Inr ((ex_token ''0xs'')\<lparr>price := JFloat 1\<rparr>),
        save ((ex_token ''0xs'')\<lparr>price := JFloat 1\<rparr>) empty_state)
   \<and> trace (snd (update_price ex_settings world_down (ex_token ''0xs'') empty_state)) = []"
proof -
  have h: "address (ex_token ''0xs'') = STABLE_TOKEN_ADDRESS ex_settings"
    by (simp add: ex_settings_def ex_token_def new_token_def)
  have t: "trace empty_state = []"
    by (simp add: empty_state_def)
  show ?thesis
    using reference_token_pegged [OF h, of world_down empty_state] t by simp
qed

section \<open>The screener pass\<close>

lemma pairs_in_kava_filter:
  "\<forall>p\<in>set ps. \<exists>c. py_getitem p ''chainId'' = Inr c \<Longrightarrow>
   pairs_in_kava ps = Inr (filter (\<lambda>p. py_getitem p ''chainId'' = Inr (JStr ''kava'')) ps)"
  by (induction ps) auto

lemma find_as_filter:
  "List.find P xs = (case filter P xs of [] \<Rightarrow> None | x # _ \<Rightarrow> Some x)"
  by (induction xs) auto

lemma dexscreener_no_pairs:
  assumes "address self \<noteq> STABLE_TOKEN_ADDRESS cfg"
    and "http_get_json env (DEXSCREENER_ENDPOINT @ address self) = Inr (JObj kvs)"
    and "map_of kvs ''pairs'' = None \<or> map_of kvs ''pairs'' = Some JNull
         \<or> map_of kvs ''pairs'' = Some (JArr [])"
  shows "dexscreener_price_in_stables cfg env self s
           = (Inr (JInt 0), emit (HttpGet (DEXSCREENER_ENDPOINT @ address self)) s)"
  using assms by (auto simp: dexscreener_price_in_stables_def Let_def py_or_def)

lemma dexscreener_some_pairs:
  assumes "address self \<noteq> STABLE_TOKEN_ADDRESS cfg"
    and "http_get_json env (DEXSCREENER_ENDPOINT @ address self) = Inr (JObj kvs)"
    and "map_of kvs ''pairs'' = Some (JArr ps)"
    and "ps \<noteq> []"
    and "\<forall>p\<in>set ps. \<exists>c. py_getitem p ''chainId'' = Inr c"
  shows "dexscreener_price_in_stables cfg env self s
           = (pair_price env
                (case List.find (\<lambda>p. py_getitem p ''chainId'' = Inr (JStr ''kava'')) ps of
                   Some p \<Rightarrow> p | None \<Rightarrow> hd ps),
              emit (HttpGet (DEXSCREENER_ENDPOINT @ address self)) s)"
proof -
  let ?P = "\<lambda>p. py_getitem p ''chainId'' = Inr (JStr ''kava'')"
  have k: "pairs_in_kava ps = Inr (filter ?P ps)"
    using assms(5) by (rule pairs_in_kava_filter)
  obtain p0 rest where ps: "ps = p0 # rest"
    using assms(4) by (cases ps) auto
  have o: "py_or (JArr ps) (JArr []) = JArr ps"
    using assms(4) by (simp add: py_or_def)
  show ?thesis
  proof (cases "filter ?P ps")
    case Nil
    then have "List.find ?P ps = None" by (simp add: find_as_filter)
    with Nil assms(1-3) k o ps show ?thesis
      by (simp add: dexscreener_price_in_stables_def Let_def)
  next
    case (Cons q qs)
    then have "List.find ?P ps = Some q" by (simp add: find_as_filter)
    with Cons assms(1-3) k o ps show ?thesis
      by (simp add: dexscreener_price_in_stables_def Let_def)
  qed
qed

lemma str_of_int_zero: "str_of_int 0 = ''0''"
  by (simp add: str_of_int_def str_of_nat_def digit_char_def)

lemma py_float_zero: "py_float (strip_commas (str_of_int 0)) = Inr 0"
  by (simp add: str_of_int_zero strip_commas_def py_float_def
      unsigned_float_def is_digit_def digits_val_def)

lemma pair_price_default:
  assumes "map_of pkvs ''priceUsd'' = None \<or> map_of pkvs ''priceUsd'' = Some JNull
           \<or> map_of pkvs ''priceUsd'' = Some (JStr [])"
  shows "pair_price env (JObj pkvs) = Inr (JFloat 0)"
  using assms by (auto simp: pair_price_def py_or_def py_float_zero)





text \<open>
  Claim C10. A screener answer whose \<open>pairs\<close> is \<open>null\<close> is treated as having no
  pair (price 0), and a selected pair whose \<open>priceUsd\<close> is missing, \<open>null\<close> or the
  empty string gives the price 0.0: no exception is raised on these shapes.
\<close>

theorem screener_pass_degenerate:
  assumes "address self \<noteq> STABLE_TOKEN_ADDRESS cfg"
    and "http_get_json env (DEXSCREENER_ENDPOINT @ address self) = Inr (JObj kvs)"
  shows "(map_of kvs ''pairs'' = Some JNull \<longrightarrow>
            fst (dexscreener_price_in_stables cfg env self s) = Inr (JInt 0))
       \<and> (\<forall>ps pkvs.
             map_of kvs ''pairs'' = Some (JArr ps) \<and> ps \<noteq> []
             \<and> (\<forall>p\<in>set ps. \<exists>c. py_getitem p ''chainId'' = Inr c)
             \<and> (case List.find (\<lambda>p. py_getitem p ''chainId'' = Inr (JStr ''kava'')) ps of
                   Some p \<Rightarrow> p | None \<Rightarrow> hd ps) = JObj pkvs
             \<and> (map_of pkvs ''priceUsd'' = None \<or> map_of pkvs ''priceUsd'' = Some JNull
                  \<or> map_of pkvs ''priceUsd'' = Some (JStr []))
             \<longrightarrow> fst (dexscreener_price_in_stables cfg env self s) = Inr (JFloat 0))"
proof (intro conjI allI impI)
  assume "map_of kvs ''pairs'' = Some JNull"
  then have "map_of kvs ''pairs'' = None \<or> map_of kvs ''pairs'' = Some JNull
         \<or> map_of kvs ''pairs'' = Some (JArr [])" by simp
  from dexscreener_no_pairs [OF assms this]
  show "fst (dexscreener_price_in_stables cfg env self s) = Inr (JInt 0)" by simp
next
  fix ps pkvs
  assume h: "map_of kvs ''pairs'' = Some (JArr ps) \<and> ps \<noteq> []
             \<and> (\<forall>p\<in>set ps. \<exists>c. py_getitem p ''chainId'' = Inr c)
             \<and> (case List.find (\<lambda>p. py_getitem p ''chainId'' = Inr (JStr ''kava'')) ps of
                   Some p \<Rightarrow> p | None \<Rightarrow> hd ps) = JObj pkvs
             \<and> (map_of pkvs ''priceUsd'' = None \<or> map_of pkvs ''priceUsd'' = Some JNull
                  \<or> map_of pkvs ''priceUsd'' = Some (JStr []))"
  then have 1: "map_of kvs ''pairs'' = Some (JArr ps)" and 2: "ps \<noteq> []"
    and 3: "\<forall>p\<in>set ps. \<exists>c. py_getitem p ''chainId'' = Inr c"
    and 4: "(case List.find (\<lambda>p. py_getitem p ''chainId'' = Inr (JStr ''kava'')) ps of
                   Some p \<Rightarrow> p | None \<Rightarrow> hd ps) = JObj pkvs"
    and 5: "map_of pkvs ''priceUsd'' = None \<or> map_of pkvs ''priceUsd'' = Some JNull
                  \<or> map_of pkvs ''priceUsd'' = Some (JStr [])"
    by blast+
  from dexscreener_some_pairs [OF assms 1 2 3, of s] 4 pair_price_default [OF 5, of env]
  show "fst (dexscreener_price_in_stables cfg env self s) = Inr (JFloat 0)" by simp
qed

theorem screener_pass_degenerate_witness:
  "fst (dexscreener_price_in_stables ex_settings (screener_world ''0xa'' null_pairs)
          (ex_token ''0xa'') empty_state) = Inr (JInt 0)
   \<and> fst (dexscreener_price_in_stables ex_settings (screener_world ''0xa'' unpriced_pair)
          (ex_token ''0xa'') empty_state) = Inr (JFloat 0)"
proof -
  let ?pk = "[(''chainId'', JStr ''kava''), (''priceUsd'', JNull)]"
  have a: "address (ex_token ''0xa'') \<noteq> STABLE_TOKEN_ADDRESS ex_settings"
    by (simp add: ex_token_def new_token_def ex_settings_def)
  have r1: "http_get_json (screener_world ''0xa'' null_pairs)
             (DEXSCREENER_ENDPOINT @ address (ex_token ''0xa''))
           = Inr (JObj [(''pairs'', JNull)])"
    by (simp add: screener_world_def null_pairs_def ex_token_def new_token_def)
  have r2: "http_get_json (screener_world ''0xa'' unpriced_pair)
             (DEXSCREENER_ENDPOINT @ address (ex_token ''0xa''))
           = Inr (JObj [(''pairs'', JArr [JObj ?pk])])"
    by (simp add: screener_world_def unpriced_pair_def ex_token_def new_token_def)
  have 1: "fst (dexscreener_price_in_stables ex_settings (screener_world ''0xa'' null_pairs)
          (ex_token ''0xa'') empty_state) = Inr (JInt 0)"
    using screener_pass_degenerate [OF a r1, of empty_state] by simp
  have "map_of [(''pairs'', JArr [JObj ?pk])] ''pairs'' = Some (JArr [JObj ?pk]) \<and> [JObj ?pk] \<noteq> []
             \<and> (\<forall>p\<in>set [JObj ?pk]. \<exists>c. py_getitem p ''chainId'' = Inr c)
             \<and> (case List.find (\<lambda>p. py_getitem p ''chainId'' = Inr (JStr ''kava'')) [JObj ?pk] of
                   Some p \<Rightarrow> p | None \<Rightarrow> hd [JObj ?pk]) = JObj ?pk
             \<and> (map_of ?pk ''priceUsd'' = None \<or> map_of ?pk ''priceUsd'' = Some JNull
                  \<or> map_of ?pk ''priceUsd'' = Some (JStr []))"
    by simp
  with screener_pass_degenerate [OF a r2, of empty_state]
  have 2: "fst (dexscreener_price_in_stables ex_settings (screener_world ''0xa'' unpriced_pair)
          (ex_token ''0xa'') empty_state) = Inr (JFloat 0)"
    by blast
  from 1 2 show ?thesis by simp
qed

section \<open>The aggregated pass\<close>

lemma dexscreener_store [simp]:
  "store (snd (dexscreener_price_in_stables cfg env self s)) = store s"
  by (simp add: dexscreener_price_in_stables_def Let_def split: sum.splits list.splits)

lemma defillama_store [simp]:
  "store (snd (defillama_price_in_stables cfg env self s)) = store s"
  by (simp add: defillama_price_in_stables_def Let_def split: sum.splits list.splits)

lemma aggregated_cases:
  assumes "dexscreener_price_in_stables cfg env self s = (r, s1)"
  shows "aggregated_price_in_stables cfg env self s =
     (case r of
        Inl e \<Rightarrow> (Inl e, s1)
      | Inr p \<Rightarrow>
          if \<not> py_eq_int p 0 \<and> address self \<notin> set (BLUECHIP_TOKEN_ADDRESSES cfg)
          then (Inr p, s1)
          else (case fst (defillama_price_in_stables cfg env self s1) of
                  Inr q \<Rightarrow> (Inr q, snd (defillama_price_in_stables cfg env self s1))
                | Inl e \<Rightarrow>
                    if e = HTTPError \<or> e = JSONDecodeError
                    then (Inr p, snd (defillama_price_in_stables cfg env self s1))
                    else (Inl e, snd (defillama_price_in_stables cfg env self s1))))"
  using assms
  by (cases "defillama_price_in_stables cfg env self s1")
     (auto simp: aggregated_price_in_stables_def split: sum.splits)

lemma aggregated_store [simp]:
  "store (snd (aggregated_price_in_stables cfg env self s)) = store s"
proof -
  obtain r s1 where d: "dexscreener_price_in_stables cfg env self s = (r, s1)"
    by (cases "dexscreener_price_in_stables cfg env self s")
  with dexscreener_store [of cfg env self s] have s1: "store s1 = store s" by simp
  have "store (snd (defillama_price_in_stables cfg env self s1)) = store s"
    using s1 by simp
  with s1 show ?thesis
    by (simp add: aggregated_cases [OF d] split: sum.splits)
qed






lemma ex_token_simps [simp]:
  "address (ex_token a) = a" "decimals (ex_token a) = JInt 18"
  by (simp_all add: ex_token_def new_token_def)

lemma dexscreener_one_pair:
  assumes "a \<noteq> STABLE_TOKEN_ADDRESS cfg"
    and "http_get_json env (DEXSCREENER_ENDPOINT @ a) = Inr (one_pair txt)"
    and "address self = a"
  shows "dexscreener_price_in_stables cfg env self s
           = (pair_price env (JObj [(''chainId'', JStr ''kava''), (''priceUsd'', JStr txt)]),
              emit (HttpGet (DEXSCREENER_ENDPOINT @ a)) s)"
  using assms by (simp add: dexscreener_price_in_stables_def one_pair_def Let_def py_or_def)

lemma pair_price_two: "pair_price env (JObj [(''chainId'', JStr ''kava''), (''priceUsd'', JStr ''2'')]) = Inr (JFloat 2)"
  by (simp add: pair_price_def py_or_def strip_commas_def py_float_def unsigned_float_def
      is_digit_def digits_val_def)


lemma str_lower_0xa [simp]: "str_lower ''0xa'' = ''0xa''" "str_lower ''0xb'' = ''0xb''"
  "str_lower ''0xs'' = ''0xs''" "str_lower ''0xA'' = ''0xa''"
  by (simp_all add: str_lower_def char_lower_def)


section \<open>The router pass and the price update\<close>

lemma aggregated_stable:
  assumes "address self = STABLE_TOKEN_ADDRESS cfg"
  shows "aggregated_price_in_stables cfg env self s = (Inr (JFloat 1), s)"
proof -
  have d: "dexscreener_price_in_stables cfg env self s = (Inr (JFloat 1), s)"
    using assms by (simp add: dexscreener_price_in_stables_def)
  have l: "defillama_price_in_stables cfg env self s = (Inr (JFloat 1), s)"
    using assms by (simp add: defillama_price_in_stables_def)
  show ?thesis by (simp add: aggregated_cases [OF d] l)
qed

lemma aggregated_zero_not_stable:
  assumes "aggregated_price_in_stables cfg env self s = (Inr p, s1)" and "py_eq_int p 0"
  shows "address self \<noteq> STABLE_TOKEN_ADDRESS cfg"
proof
  assume "address self = STABLE_TOKEN_ADDRESS cfg"
  from aggregated_stable [OF this, of env s] assms show False by simp
qed

lemma update_price_cases:
  assumes "aggregated_price_in_stables cfg env self s = (r, s1)"
  shows "update_price cfg env self s =
     (case r of
        Inl e \<Rightarrow> (Inl e, s1)
      | Inr p \<Rightarrow>
          if py_eq_int p 0
          then (case chain_price_in_stables cfg env (self\<lparr>price := p\<rparr>) s1 of
                  (Inl e, s2) \<Rightarrow> (Inl e, s2)
                | (Inr q, s2) \<Rightarrow> (Inr (self\<lparr>price := q\<rparr>), save (self\<lparr>price := q\<rparr>) s2))
          else (Inr (self\<lparr>price := p\<rparr>), save (self\<lparr>price := p\<rparr>) s1))"
  using assms by (simp add: update_price.simps split: sum.splits)

lemma find_token_hit:
  "store s (str_lower a) = Some t \<Longrightarrow> find_token cfg env (Some a) s = (Inr (Some t), s)"
  by (simp add: find_token.simps)

lemma chain_price_cases:
  assumes "address self \<noteq> STABLE_TOKEN_ADDRESS cfg"
    and "find_token cfg env (Some (STABLE_TOKEN_ADDRESS cfg)) s = (Inr (Some sc), s1)"
    and "py_pow10 (decimals self) = Inr amt"
  shows "chain_price_in_stables cfg env self s =
     (case router_getAmountOut env amt (address self) (address sc) of
        Inl e \<Rightarrow>
          if e = ContractLogicError
          then (Inr (JInt 0), emit (RouterCall amt (address self) (address sc)) s1)
          else (Inl e, emit (RouterCall amt (address self) (address sc)) s1)
      | Inr (amount, is_stable) \<Rightarrow>
          (case py_pow10 (decimals sc) of
             Inl e \<Rightarrow> (Inl e, emit (RouterCall amt (address self) (address sc)) s1)
           | Inr scale \<Rightarrow>
               (case py_truediv (JInt (int amount)) scale of
                  Inl e \<Rightarrow> (Inl e, emit (RouterCall amt (address self) (address sc)) s1)
                | Inr q \<Rightarrow> (Inr q, emit (RouterCall amt (address self) (address sc)) s1))))"
  using assms by (simp add: chain_price_in_stables.simps Let_def split: sum.splits)

lemma chain_price_ignores_price:
  "chain_price_in_stables cfg env (self\<lparr>price := p\<rparr>) s = chain_price_in_stables cfg env self s"
  by (cases "find_token cfg env (Some (STABLE_TOKEN_ADDRESS cfg)) s")
     (simp add: chain_price_in_stables.simps split: sum.splits option.splits)

lemma truediv_scale:
  "py_truediv (JInt (int amount)) (JInt (10 ^ d)) = Inr (JFloat (real amount / 10 ^ d))"
  by (simp add: py_truediv_def)

text \<open>
  Claim C5. Let the aggregated pass return the price \<open>p\<close>. If \<open>p\<close> is not 0 the update
  stores \<open>p\<close> in the state the aggregated pass left, so no router call is made. If
  \<open>p\<close> is 0 the router pass runs: with the stable token's record \<open>sc\<close> looked up, the
  router is asked for the output of one unit of the token; a contract-logic revert gives
  the price 0, and an answer \<open>amount\<close> gives \<open>amount / 10 ^ d\<close> where \<open>d\<close> is the number
  of decimals of the stable token.
\<close>

theorem router_pass_when_zero:
  assumes "aggregated_price_in_stables cfg env self s = (Inr p, s1)"
  shows "(\<not> py_eq_int p 0 \<longrightarrow>
            update_price cfg env self s = (Inr (self\<lparr>price := p\<rparr>), save (self\<lparr>price := p\<rparr>) s1))
       \<and> (py_eq_int p 0 \<longrightarrow>
            (\<forall>sc s2 amt.
               find_token cfg env (Some (STABLE_TOKEN_ADDRESS cfg)) s1 = (Inr (Some sc), s2)
               \<and> py_pow10 (decimals self) = Inr amt \<longrightarrow>
               (router_getAmountOut env amt (address self) (address sc) = Inl ContractLogicError
                  \<longrightarrow> update_price cfg env self s
                        = (Inr (self\<lparr>price := JInt 0\<rparr>),
                           save (self\<lparr>price := JInt 0\<rparr>)
                             (emit (RouterCall amt (address self) (address sc)) s2)))
               \<and> (\<forall>amount is_stable d.
                     router_getAmountOut env amt (address self) (address sc)
                       = Inr (amount, is_stable)
                     \<and> decimals sc = JInt (int d) \<longrightarrow>
                     update_price cfg env self s
                       = (Inr (self\<lparr>price := JFloat (real amount / 10 ^ d)\<rparr>),
                          save (self\<lparr>price := JFloat (real amount / 10 ^ d)\<rparr>)
                            (emit (RouterCall amt (address self) (address sc)) s2)))))"
proof (intro conjI impI allI)
  assume "\<not> py_eq_int p 0"
  then show "update_price cfg env self s
               = (Inr (self\<lparr>price := p\<rparr>), save (self\<lparr>price := p\<rparr>) s1)"
    by (simp add: update_price_cases [OF assms])
next
  fix sc s2 amt
  assume z: "py_eq_int p 0"
    and h: "find_token cfg env (Some (STABLE_TOKEN_ADDRESS cfg)) s1 = (Inr (Some sc), s2)
            \<and> py_pow10 (decimals self) = Inr amt"
    and r: "router_getAmountOut env amt (address self) (address sc) = Inl ContractLogicError"
  from aggregated_zero_not_stable [OF assms z]
  have n: "address self \<noteq> STABLE_TOKEN_ADDRESS cfg" .
  from h have f: "find_token cfg env (Some (STABLE_TOKEN_ADDRESS cfg)) s1 = (Inr (Some sc), s2)"
    and a: "py_pow10 (decimals self) = Inr amt" by blast+
  from chain_price_cases [OF n f a] r
  have "chain_price_in_stables cfg env self s1
          = (Inr (JInt 0), emit (RouterCall amt (address self) (address sc)) s2)"
    by simp
  with z show "update_price cfg env self s
                 = (Inr (self\<lparr>price := JInt 0\<rparr>),
                    save (self\<lparr>price := JInt 0\<rparr>)
                      (emit (RouterCall amt (address self) (address sc)) s2))"
    by (simp add: update_price_cases [OF assms] chain_price_ignores_price)
next
  fix sc s2 amt amount is_stable d
  assume z: "py_eq_int p 0"
    and h: "find_token cfg env (Some (STABLE_TOKEN_ADDRESS cfg)) s1 = (Inr (Some sc), s2)
            \<and> py_pow10 (decimals self) = Inr amt"
    and r: "router_getAmountOut env amt (address self) (address sc) = Inr (amount, is_stable)
            \<and> decimals sc = JInt (int d)"
  from aggregated_zero_not_stable [OF assms z]
  have n: "address self \<noteq> STABLE_TOKEN_ADDRESS cfg" .
  from h have f: "find_token cfg env (Some (STABLE_TOKEN_ADDRESS cfg)) s1 = (Inr (Some sc), s2)"
    and a: "py_pow10 (decimals self) = Inr amt" by blast+
  from chain_price_cases [OF n f a] r
  have "chain_price_in_stables cfg env self s1
          = (Inr (JFloat (real amount / 10 ^ d)),
             emit (RouterCall amt (address self) (address sc)) s2)"
    by (simp add: truediv_scale)
  with z show "update_price cfg env self s
                 = (Inr (self\<lparr>price := JFloat (real amount / 10 ^ d)\<rparr>),
                    save (self\<lparr>price := JFloat (real amount / 10 ^ d)\<rparr>)
                      (emit (RouterCall amt (address self) (address sc)) s2))"
    by (simp add: update_price_cases [OF assms] chain_price_ignores_price)
qed

lemma defillama_no_coins:
  assumes "address self \<noteq> STABLE_TOKEN_ADDRESS cfg"
    and "http_get_json env (DEFILLAMA_ENDPOINT @ ''kava:'' @ str_lower (address self))
           = Inr (JObj okvs)"
    and "map_of okvs ''coins'' = None \<or> map_of okvs ''coins'' = Some (JObj [])"
  shows "defillama_price_in_stables cfg env self s
           = (Inr (JInt 0),
              emit (HttpGet (DEFILLAMA_ENDPOINT @ ''kava:'' @ str_lower (address self))) s)"
  using assms by (auto simp: defillama_price_in_stables_def Let_def)



lemma aggregated_no_data:
  assumes "address self \<noteq> STABLE_TOKEN_ADDRESS cfg"
    and "http_get_json env (DEXSCREENER_ENDPOINT @ address self) = Inr (JObj kvs)"
    and "map_of kvs ''pairs'' = None \<or> map_of kvs ''pairs'' = Some JNull
         \<or> map_of kvs ''pairs'' = Some (JArr [])"
    and "http_get_json env (DEFILLAMA_ENDPOINT @ ''kava:'' @ str_lower (address self))
           = Inr (JObj okvs)"
    and "map_of okvs ''coins'' = None \<or> map_of okvs ''coins'' = Some (JObj [])"
  shows "aggregated_price_in_stables cfg env self s
           = (Inr (JInt 0),
              emit (HttpGet (DEFILLAMA_ENDPOINT @ ''kava:'' @ str_lower (address self)))
                (emit (HttpGet (DEXSCREENER_ENDPOINT @ address self)) s))"
  by (simp add: aggregated_cases [OF dexscreener_no_pairs [OF assms(1,2,3)]]
      defillama_no_coins [OF assms(1,4,5)])

lemma endpoints_differ [simp]:
  "DEXSCREENER_ENDPOINT @ a \<noteq> DEFILLAMA_ENDPOINT @ b"
  "DEFILLAMA_ENDPOINT @ b \<noteq> DEXSCREENER_ENDPOINT @ a"
  by (simp_all add: DEXSCREENER_ENDPOINT_def DEFILLAMA_ENDPOINT_def)

lemma ex_world_simps [simp]:
  "http_get_json (chain_world w r d) = http_get_json w"
  "router_getAmountOut (chain_world w r d) = (\<lambda>amount_in token_in token_out. r)"
  "multicall_identity (chain_world w r d) = (\<lambda>a. Inr (''Coin'', ''CN'', d))"
  "http_get_json (market_world a sc orc) (DEXSCREENER_ENDPOINT @ a) = Inr sc"
  "k = ''kava:'' @ a \<Longrightarrow> http_get_json (market_world a sc orc) (DEFILLAMA_ENDPOINT @ k) = Inr orc"
  "http_get_json (oracle_fault_world a sc e) (DEXSCREENER_ENDPOINT @ a) = Inr sc"
  "http_get_json (oracle_fault_world a sc e) (DEFILLAMA_ENDPOINT @ b) = Inl e"
  "http_get_json world_down url = Inl ConnectionError"
  by (simp_all add: chain_world_def market_world_def oracle_fault_world_def world_down_def)

lemma ex_settings_simps [simp]:
  "STABLE_TOKEN_ADDRESS ex_settings = ''0xs''"
  "BLUECHIP_TOKEN_ADDRESSES ex_settings = [''0xb'']"
  by (simp_all add: ex_settings_def)

lemma stable_state_simps [simp]:
  "store stable_state ''0xs'' = Some (new_token ''0xs'' ''Stable'' ''USD'' 6)"
  "trace stable_state = []" "store empty_state = Map.empty" "trace empty_state = []"
  by (simp_all add: stable_state_def empty_state_def new_token_def)

lemma aggregated_ex_no_data:
  "aggregated_price_in_stables ex_settings
     (chain_world (market_world ''0xa'' no_pairs no_coins) r d) (ex_token ''0xa'') s
   = (Inr (JInt 0),
      emit (HttpGet (DEFILLAMA_ENDPOINT @ ''kava:0xa''))
        (emit (HttpGet (DEXSCREENER_ENDPOINT @ ''0xa'')) s))"
  using aggregated_no_data [of "ex_token ''0xa''" ex_settings
      "chain_world (market_world ''0xa'' no_pairs no_coins) r d"
      "[(''pairs'', JArr [])]" "[(''coins'', JObj [])]" s]
  by (simp add: no_pairs_def no_coins_def)

theorem router_pass_when_zero_witness:
  "fst (update_price ex_settings
          (chain_world (market_world ''0xa'' no_pairs no_coins) (Inr (2500000, False)) 6)
          (ex_token ''0xa'') stable_state)
     = Inr ((ex_token ''0xa'')\<lparr>price := JFloat 2.5\<rparr>)
   \<and> fst (update_price ex_settings
          (chain_world (market_world ''0xa'' no_pairs no_coins) (Inl ContractLogicError) 6)
          (ex_token ''0xa'') stable_state)
     = Inr ((ex_token ''0xa'')\<lparr>price := JInt 0\<rparr>)
   \<and> update_price ex_settings
          (market_world ''0xa'' (one_pair ''2'') no_coins) (ex_token ''0xa'') stable_state
     = (Inr ((ex_token ''0xa'')\<lparr>price := JFloat 2\<rparr>),
        save ((ex_token ''0xa'')\<lparr>price := JFloat 2\<rparr>)
          (emit (HttpGet (DEXSCREENER_ENDPOINT @ ''0xa'')) stable_state))"
proof -
  let ?w1 = "chain_world (market_world ''0xa'' no_pairs no_coins) (Inr (2500000, False)) 6"
  let ?w2 = "chain_world (market_world ''0xa'' no_pairs no_coins) (Inl ContractLogicError) 6"
  let ?w3 = "market_world ''0xa'' (one_pair ''2'') no_coins"
  let ?s1 = "emit (HttpGet (DEFILLAMA_ENDPOINT @ ''kava:0xa''))
               (emit (HttpGet (DEXSCREENER_ENDPOINT @ ''0xa'')) stable_state)"
  let ?sc = "new_token ''0xs'' ''Stable'' ''USD'' 6"
  let ?amt = "JInt (10 ^ 18)"
  have z: "py_eq_int (JInt 0) 0" by simp
  have a: "py_pow10 (decimals (ex_token ''0xa'')) = Inr ?amt" by simp
  have f: "find_token ex_settings w (Some (STABLE_TOKEN_ADDRESS ex_settings)) ?s1
             = (Inr (Some ?sc), ?s1)" for w
    by (rule find_token_hit) simp
  have d: "decimals ?sc = JInt (int 6)" by (simp add: new_token_def)
  have r1: "router_getAmountOut ?w1 ?amt (address (ex_token ''0xa'')) (address ?sc)
              = Inr (2500000, False)" by simp
  have r2: "router_getAmountOut ?w2 ?amt (address (ex_token ''0xa'')) (address ?sc)
              = Inl ContractLogicError" by simp
  from router_pass_when_zero [OF aggregated_ex_no_data, of "Inr (2500000, False)" 6 stable_state]
    z f [of ?w1] a r1 d
  have 1: "update_price ex_settings ?w1 (ex_token ''0xa'') stable_state
        = (Inr ((ex_token ''0xa'')\<lparr>price := JFloat (real 2500000 / 10 ^ 6)\<rparr>),
           save ((ex_token ''0xa'')\<lparr>price := JFloat (real 2500000 / 10 ^ 6)\<rparr>)
             (emit (RouterCall ?amt (address (ex_token ''0xa'')) (address ?sc)) ?s1))"
    by blast
  from router_pass_when_zero [OF aggregated_ex_no_data, of "Inl ContractLogicError" 6 stable_state]
    z f [of ?w2] a r2
  have 2: "update_price ex_settings ?w2 (ex_token ''0xa'') stable_state
        = (Inr ((ex_token ''0xa'')\<lparr>price := JInt 0\<rparr>),
           save ((ex_token ''0xa'')\<lparr>price := JInt 0\<rparr>)
             (emit (RouterCall ?amt (address (ex_token ''0xa'')) (address ?sc)) ?s1))"
    by blast
  have d3: "dexscreener_price_in_stables ex_settings ?w3 (ex_token ''0xa'') stable_state
              = (Inr (JFloat 2), emit (HttpGet (DEXSCREENER_ENDPOINT @ ''0xa'')) stable_state)"
    using dexscreener_one_pair [of "''0xa''" ex_settings ?w3 "''2''" "ex_token ''0xa''" stable_state]
    by (simp add: pair_price_two)
  have a3: "aggregated_price_in_stables ex_settings ?w3 (ex_token ''0xa'') stable_state
              = (Inr (JFloat 2), emit (HttpGet (DEXSCREENER_ENDPOINT @ ''0xa'')) stable_state)"
    by (simp add: aggregated_cases [OF d3])
  have nz: "\<not> py_eq_int (JFloat 2) 0" by simp
  from router_pass_when_zero [OF a3] nz
  have 3: "update_price ex_settings ?w3 (ex_token ''0xa'') stable_state
     = (Inr ((ex_token ''0xa'')\<lparr>price := JFloat 2\<rparr>),
        save ((ex_token ''0xa'')\<lparr>price := JFloat 2\<rparr>)
          (emit (HttpGet (DEXSCREENER_ENDPOINT @ ''0xa'')) stable_state))"
    by blast
  from 1 2 3 show ?thesis by simp
qed

section \<open>Exceptions of the price update\<close>






section \<open>What the price update changes\<close>

lemma str_lower_idem [simp]: "str_lower (str_lower a) = str_lower a"
proof -
  have "char_lower (char_lower c) = char_lower c" for c
    by (simp add: char_lower_def)
  then show ?thesis by (simp add: str_lower_def)
qed

lemma update_price_frame:
  assumes "update_price cfg env self s = (Inr t, s')"
  shows "t = self\<lparr>price := price t\<rparr> \<and> store s' (address self) = Some t"
proof -
  obtain r s1 where a: "aggregated_price_in_stables cfg env self s = (r, s1)"
    by (cases "aggregated_price_in_stables cfg env self s")
  show ?thesis
    using assms
    by (auto simp: update_price_cases [OF a] split: sum.splits if_splits prod.splits)
qed

lemma find_token_miss:
  assumes "store s (str_lower a) = None"
    and "find_token cfg env (Some a) s = (Inr r, s')"
  shows "\<exists>n sy d t s2.
           multicall_identity env (str_lower a) = Inr (n, sy, d)
           \<and> update_price cfg env (new_token (str_lower a) n sy d)
                (save (new_token (str_lower a) n sy d) (emit (MulticallCall (str_lower a)) s))
               = (Inr t, s2)
           \<and> r = Some t \<and> s' = emit (LogDebug ''Fetched'') s2"
  using assms
  by (auto simp: find_token.simps from_chain.simps Let_def split: sum.splits prod.splits)


lemma chain_price_found:
  assumes "address self \<noteq> STABLE_TOKEN_ADDRESS cfg"
    and "find_token cfg env (Some (STABLE_TOKEN_ADDRESS cfg)) s = (Inr (Some sc), s1)"
  shows "chain_price_in_stables cfg env self s =
     (case py_pow10 (decimals self) of
        Inl e \<Rightarrow> (Inl e, s1)
      | Inr amt \<Rightarrow>
         (case router_getAmountOut env amt (address self) (address sc) of
            Inl e \<Rightarrow>
              if e = ContractLogicError
              then (Inr (JInt 0), emit (RouterCall amt (address self) (address sc)) s1)
              else (Inl e, emit (RouterCall amt (address self) (address sc)) s1)
          | Inr (amount, is_stable) \<Rightarrow>
              (case py_pow10 (decimals sc) of
                 Inl e \<Rightarrow> (Inl e, emit (RouterCall amt (address self) (address sc)) s1)
               | Inr scale \<Rightarrow>
                   (case py_truediv (JInt (int amount)) scale of
                      Inl e \<Rightarrow> (Inl e, emit (RouterCall amt (address self) (address sc)) s1)
                    | Inr q \<Rightarrow> (Inr q, emit (RouterCall amt (address self) (address sc)) s1)))))"
  using assms by (simp add: chain_price_in_stables.simps Let_def split: sum.splits)

lemma chain_price_returns_found:
  assumes "address self \<noteq> STABLE_TOKEN_ADDRESS cfg"
    and "chain_price_in_stables cfg env self s = (Inr q, s2)"
  shows "\<exists>sc s1. find_token cfg env (Some (STABLE_TOKEN_ADDRESS cfg)) s = (Inr (Some sc), s1)
                 \<and> store s2 = store s1"
proof -
  obtain rf s1 where f: "find_token cfg env (Some (STABLE_TOKEN_ADDRESS cfg)) s = (rf, s1)"
    by (cases "find_token cfg env (Some (STABLE_TOKEN_ADDRESS cfg)) s")
  from assms f obtain sc where rf: "rf = Inr (Some sc)"
    by (auto simp: chain_price_in_stables.simps split: sum.splits option.splits)
  from assms(2) have "store s2 = store s1"
    unfolding chain_price_found [OF assms(1) f [unfolded rf]]
    by (auto split: sum.splits prod.splits if_splits)
  with f rf show ?thesis by auto
qed







lemma update_price_via_router:
  assumes "address self \<noteq> STABLE_TOKEN_ADDRESS cfg"
    and "http_get_json env (DEXSCREENER_ENDPOINT @ address self) = Inr (JObj kvs)"
    and "map_of kvs ''pairs'' = None \<or> map_of kvs ''pairs'' = Some JNull
         \<or> map_of kvs ''pairs'' = Some (JArr [])"
    and "http_get_json env (DEFILLAMA_ENDPOINT @ ''kava:'' @ str_lower (address self))
           = Inr (JObj okvs)"
    and "map_of okvs ''coins'' = None \<or> map_of okvs ''coins'' = Some (JObj [])"
    and "store s (str_lower (STABLE_TOKEN_ADDRESS cfg)) = Some sc"
    and "py_pow10 (decimals self) = Inr amt"
    and "router_getAmountOut env amt (address self) (address sc) = Inr (amount, is_stable)"
    and "decimals sc = JInt (int d)"
  shows "update_price cfg env self s
           = (Inr (self\<lparr>price := JFloat (real amount / 10 ^ d)\<rparr>),
              save (self\<lparr>price := JFloat (real amount / 10 ^ d)\<rparr>)
                (emit (RouterCall amt (address self) (address sc))
                  (emit (HttpGet (DEFILLAMA_ENDPOINT @ ''kava:'' @ str_lower (address self)))
                    (emit (HttpGet (DEXSCREENER_ENDPOINT @ address self)) s))))"
proof -
  let ?s1 = "emit (HttpGet (DEFILLAMA_ENDPOINT @ ''kava:'' @ str_lower (address self)))
               (emit (HttpGet (DEXSCREENER_ENDPOINT @ address self)) s)"
  note a = aggregated_no_data [OF assms(1-5), of s]
  have f: "find_token cfg env (Some (STABLE_TOKEN_ADDRESS cfg)) ?s1 = (Inr (Some sc), ?s1)"
    by (rule find_token_hit) (simp add: assms(6))
  from chain_price_cases [OF assms(1) f assms(7)] assms(8,9)
  have "chain_price_in_stables cfg env self ?s1
          = (Inr (JFloat (real amount / 10 ^ d)),
             emit (RouterCall amt (address self) (address sc)) ?s1)"
    by (simp add: truediv_scale)
  then show ?thesis
    by (simp add: update_price_cases [OF a] chain_price_ignores_price)
qed

lemma two_token_state_simps [simp]:
  "store two_token_state ''0xa'' = Some (ex_token ''0xa'')"
  "store two_token_state ''0xs'' = Some (new_token ''0xs'' ''Stable'' ''USD'' 6)"
  "trace two_token_state = []"
  by (simp_all add: two_token_state_def)

lemma update_price_ex_router:
  "update_price ex_settings
     (chain_world (market_world ''0xa'' no_pairs no_coins) (Inr (2500000, False)) 6)
     (ex_token ''0xa'') two_token_state
   = (Inr ((ex_token ''0xa'')\<lparr>price := JFloat 2.5\<rparr>),
      save ((ex_token ''0xa'')\<lparr>price := JFloat 2.5\<rparr>)
        (emit (RouterCall (JInt (10 ^ 18)) ''0xa'' ''0xs'')
          (emit (HttpGet (DEFILLAMA_ENDPOINT @ ''kava:0xa''))
            (emit (HttpGet (DEXSCREENER_ENDPOINT @ ''0xa'')) two_token_state))))"
  using update_price_via_router [of "ex_token ''0xa''" ex_settings
      "chain_world (market_world ''0xa'' no_pairs no_coins) (Inr (2500000, False)) 6"
      "[(''pairs'', JArr [])]" "[(''coins'', JObj [])]" two_token_state
      "new_token ''0xs'' ''Stable'' ''USD'' 6" "JInt (10 ^ 18)" 2500000 False 6]
  by (simp add: no_pairs_def no_coins_def new_token_def)


section \<open>The sign of a stored price\<close>

lemma pow10_positive:
  assumes "py_pow10 v = Inr sc"
  shows "\<exists>x. num_val sc = Some x \<and> 0 < x"
  using assms by (cases v) (auto split: if_splits)

lemma chain_price_nonneg:
  assumes "chain_price_in_stables cfg env self s = (Inr q, s2)"
  shows "nonneg_price q"
proof (cases "address self = STABLE_TOKEN_ADDRESS cfg")
  case True
  with assms show ?thesis
    by (auto simp: chain_price_in_stables.simps nonneg_price_def)
next
  case False
  from chain_price_returns_found [OF False assms] obtain sc s1 where
    f: "find_token cfg env (Some (STABLE_TOKEN_ADDRESS cfg)) s = (Inr (Some sc), s1)"
    by auto
  have d: "nonneg_price q'"
    if "py_pow10 (decimals sc) = Inr scale" "py_truediv (JInt (int amount)) scale = Inr q'"
    for scale amount q'
  proof -
    from pow10_positive [OF that(1)] obtain x where "num_val scale = Some x" "0 < x" by auto
    with that(2) show ?thesis
      by (auto simp: py_truediv_def nonneg_price_def split: if_splits)
  qed
  have z: "nonneg_price (JInt 0)" by (simp add: nonneg_price_def)
  from assms show ?thesis
    unfolding chain_price_found [OF False f]
    by (auto simp: z intro: d split: sum.splits prod.splits if_splits)
qed

text \<open>
  Claim C8 does not hold as stated: the code has no check of the sign, and a screener
  price text \<open>-1\<close> for a token other than the stable one is stored as the price -1.
\<close>

theorem negative_price_stored:
  "''0xa'' \<noteq> STABLE_TOKEN_ADDRESS ex_settings
   \<and> store (snd (update_price ex_settings (market_world ''0xa'' (one_pair ''-1'') no_coins)
                   (ex_token ''0xa'') two_token_state)) ''0xa''
       = Some ((ex_token ''0xa'')\<lparr>price := JFloat (- 1)\<rparr>)"
proof -
  let ?w = "market_world ''0xa'' (one_pair ''-1'') no_coins"
  have p: "pair_price ?w (JObj [(''chainId'', JStr ''kava''), (''priceUsd'', JStr ''-1'')])
             = Inr (JFloat (- 1))"
    by (simp add: pair_price_def py_or_def strip_commas_def py_float_def unsigned_float_def
        is_digit_def digits_val_def)
  have d: "dexscreener_price_in_stables ex_settings ?w (ex_token ''0xa'') two_token_state
             = (Inr (JFloat (- 1)),
                emit (HttpGet (DEXSCREENER_ENDPOINT @ ''0xa'')) two_token_state)"
    using dexscreener_one_pair [of "''0xa''" ex_settings ?w "''-1''" "ex_token ''0xa''"
        two_token_state]
    by (simp add: p)
  have a: "aggregated_price_in_stables ex_settings ?w (ex_token ''0xa'') two_token_state
             = (Inr (JFloat (- 1)),
                emit (HttpGet (DEXSCREENER_ENDPOINT @ ''0xa'')) two_token_state)"
    by (simp add: aggregated_cases [OF d])
  show ?thesis by (simp add: update_price_cases [OF a])
qed

text \<open>
  Claim C8 as amended. The update stores the price it resolved, whatever its sign: when
  the price chosen by the screener and oracle passes is a non-negative number, the price
  the update returns and stores is a non-negative number, since the router pass, which
  runs when that price is 0, yields 1, 0 or an unsigned amount divided by a positive power
  of ten.
\<close>

theorem stored_price_nonneg:
  assumes "aggregated_price_in_stables cfg env self s = (Inr p, s1)"
    and "nonneg_price p"
    and "update_price cfg env self s = (Inr t, s')"
  shows "nonneg_price (price t) \<and> store s' (address self) = Some t"
proof -
  have "nonneg_price (price t)"
  proof (cases "py_eq_int p 0")
    case False
    with assms(3) have "t = self\<lparr>price := p\<rparr>"
      by (simp add: update_price_cases [OF assms(1)])
    with assms(2) show ?thesis by simp
  next
    case True
    with assms(3) obtain q s2 where
      c: "chain_price_in_stables cfg env self s1 = (Inr q, s2)" and t: "t = self\<lparr>price := q\<rparr>"
      by (cases "chain_price_in_stables cfg env self s1")
         (auto simp: update_price_cases [OF assms(1)] chain_price_ignores_price
            split: sum.splits)
    from chain_price_nonneg [OF c] t show ?thesis by simp
  qed
  with update_price_frame [OF assms(3)] show ?thesis by simp
qed

theorem stored_price_nonneg_witness:
  "nonneg_price (JFloat 2.5)
   \<and> store
        (save ((ex_token ''0xa'')\<lparr>price := JFloat 2.5\<rparr>)
           (emit (RouterCall (JInt (10 ^ 18)) ''0xa'' ''0xs'')
             (emit (HttpGet (DEFILLAMA_ENDPOINT @ ''kava:0xa''))
               (emit (HttpGet (DEXSCREENER_ENDPOINT @ ''0xa'')) two_token_state))))
        ''0xa''
      = Some ((ex_token ''0xa'')\<lparr>price := JFloat 2.5\<rparr>)"
proof -
  have n: "nonneg_price (JInt 0)" by (simp add: nonneg_price_def)
  from stored_price_nonneg [OF aggregated_ex_no_data n update_price_ex_router]
  show ?thesis by simp
qed

section \<open>Lookup\<close>

text \<open>
  The only keys the four functions add to the cache are the address being priced or
  created and the lower-cased stable address.
\<close>

lemma new_keys:
  shows "dom (store (snd (update_price cfg env self s)))
           \<subseteq> dom (store s) \<union> {address self, str_lower (STABLE_TOKEN_ADDRESS cfg)}"
    and "dom (store (snd (chain_price_in_stables cfg env self' s')))
           \<subseteq> dom (store s') \<union> {str_lower (STABLE_TOKEN_ADDRESS cfg)}"
    and "dom (store (snd (find_token cfg env addr s'')))
           \<subseteq> dom (store s'') \<union> (case addr of None \<Rightarrow> {} | Some a \<Rightarrow> {str_lower a})
               \<union> {str_lower (STABLE_TOKEN_ADDRESS cfg)}"
    and "dom (store (snd (from_chain cfg env a s''')))
           \<subseteq> dom (store s''') \<union> {str_lower a, str_lower (STABLE_TOKEN_ADDRESS cfg)}"
proof (induction cfg env self s and cfg env self' s' and cfg env addr s'' and cfg env a s'''
    rule: update_price_chain_price_in_stables_find_token_from_chain.induct)
  case (1 cfg env self s)
  obtain r s1 where a: "aggregated_price_in_stables cfg env self s = (r, s1)"
    by (cases "aggregated_price_in_stables cfg env self s")
  from aggregated_store [of cfg env self s] a have s1: "store s1 = store s" by simp
  show ?case
  proof (cases r)
    case (Inl e)
    with a s1 show ?thesis by (auto simp: update_price_cases [OF a])
  next
    case (Inr p)
    show ?thesis
    proof (cases "py_eq_int p 0")
      case False
      with Inr s1 show ?thesis by (auto simp: update_price_cases [OF a])
    next
      case True
      from 1 [OF a [symmetric] Inr True] s1
      have "dom (store (snd (chain_price_in_stables cfg env (self\<lparr>price := p\<rparr>) s1)))
              \<subseteq> dom (store s) \<union> {str_lower (STABLE_TOKEN_ADDRESS cfg)}"
        by simp
      with Inr True show ?thesis
        by (cases "chain_price_in_stables cfg env (self\<lparr>price := p\<rparr>) s1")
           (auto simp: update_price_cases [OF a] split: sum.splits; blast)
    qed
  qed
next
  case (2 cfg env self s)
  show ?case
  proof (cases "address self = STABLE_TOKEN_ADDRESS cfg")
    case True
    then show ?thesis by (auto simp: chain_price_in_stables.simps)
  next
    case False
    obtain rf s1 where f: "find_token cfg env (Some (STABLE_TOKEN_ADDRESS cfg)) s = (rf, s1)"
      by (cases "find_token cfg env (Some (STABLE_TOKEN_ADDRESS cfg)) s")
    from 2 [OF False] f
    have "dom (store s1) \<subseteq> dom (store s) \<union> {str_lower (STABLE_TOKEN_ADDRESS cfg)}"
      by simp
    moreover have "store (snd (chain_price_in_stables cfg env self s)) = store s1"
      using False f
      by (simp add: chain_price_in_stables.simps Let_def
          split: sum.splits option.splits prod.splits)
    ultimately show ?thesis by auto
  qed
next
  case (3 cfg env addr s)
  show ?case
  proof (cases addr)
    case None
    then show ?thesis by (auto simp: find_token.simps)
  next
    case (Some a)
    show ?thesis
    proof (cases "store s (str_lower a)")
      case None
      from 3 [OF Some None]
      have "dom (store (snd (from_chain cfg env (str_lower a) s)))
              \<subseteq> dom (store s) \<union> {str_lower a, str_lower (STABLE_TOKEN_ADDRESS cfg)}"
        by simp
      with Some None show ?thesis
        by (cases "from_chain cfg env (str_lower a) s")
           (auto simp: find_token.simps split: sum.splits; blast)
    next
      case (Some t)
      with \<open>addr = Some a\<close> show ?thesis by (auto simp: find_token.simps)
    qed
  qed
next
  case (4 cfg env addr s)
  let ?a = "str_lower addr"
  let ?s1 = "emit (MulticallCall ?a) s"
  show ?case
  proof (cases "multicall_identity env ?a")
    case (Inl e)
    then show ?thesis by (auto simp: from_chain.simps Let_def)
  next
    case (Inr b)
    obtain n sy d where b: "b = (n, sy, d)" by (cases b) auto
    from 4 [OF refl refl Inr, of n "(sy, d)" sy d] b
    have "dom (store (snd (update_price cfg env (new_token ?a n sy d)
                              (save (new_token ?a n sy d) ?s1))))
            \<subseteq> dom (store s) \<union> {?a, str_lower (STABLE_TOKEN_ADDRESS cfg)}"
      by (auto simp: new_token_def)
    with Inr b show ?thesis
      by (cases "update_price cfg env (new_token ?a n sy d) (save (new_token ?a n sy d) ?s1)")
         (auto simp: from_chain.simps Let_def split: sum.splits; blast)
  qed
qed

lemma ex_new_keys_eval:
  "find_token ex_settings
     (chain_world (market_world ''0xa'' no_pairs no_coins) (Inr (2500000, False)) 6)
     (Some ''0xA'') empty_state
   = (Inr (Some ((new_token ''0xa'' ''Coin'' ''CN'' 6)\<lparr>price := JFloat 2.5\<rparr>)),
      emit (LogDebug ''Fetched'')
        (save ((new_token ''0xa'' ''Coin'' ''CN'' 6)\<lparr>price := JFloat 2.5\<rparr>)
          (emit (RouterCall (JInt (10 ^ 6)) ''0xa'' ''0xs'')
            (emit (LogDebug ''Fetched'')
              (save ((new_token ''0xs'' ''Coin'' ''CN'' 6)\<lparr>price := JFloat 1\<rparr>)
                (save (new_token ''0xs'' ''Coin'' ''CN'' 6)
                  (emit (MulticallCall ''0xs'')
                    (emit (HttpGet (DEFILLAMA_ENDPOINT @ ''kava:0xa''))
                      (emit (HttpGet (DEXSCREENER_ENDPOINT @ ''0xa''))
                        (save (new_token ''0xa'' ''Coin'' ''CN'' 6)
                          (emit (MulticallCall ''0xa'') empty_state)))))))))))"
proof -
  let ?w = "chain_world (market_world ''0xa'' no_pairs no_coins) (Inr (2500000, False)) 6"
  let ?ta = "new_token ''0xa'' ''Coin'' ''CN'' 6"
  let ?ts = "new_token ''0xs'' ''Coin'' ''CN'' 6"
  let ?s0 = "save ?ta (emit (MulticallCall ''0xa'') empty_state)"
  let ?s1 = "emit (HttpGet (DEFILLAMA_ENDPOINT @ ''kava:0xa''))
               (emit (HttpGet (DEXSCREENER_ENDPOINT @ ''0xa'')) ?s0)"
  let ?s2 = "save ?ts (emit (MulticallCall ''0xs'') ?s1)"
  let ?s3 = "emit (LogDebug ''Fetched'') (save (?ts\<lparr>price := JFloat 1\<rparr>) ?s2)"
  have ta [simp]: "address ?ta = ''0xa''" "decimals ?ta = JInt 6"
    and ts [simp]: "address ?ts = ''0xs''" "decimals ?ts = JInt 6"
    by (simp_all add: new_token_def)
  have a: "aggregated_price_in_stables ex_settings ?w ?ta ?s0 = (Inr (JInt 0), ?s1)"
    using aggregated_no_data [of ?ta ex_settings ?w "[(''pairs'', JArr [])]"
        "[(''coins'', JObj [])]" ?s0]
    by (simp add: no_pairs_def no_coins_def)
  have us: "update_price ex_settings ?w ?ts ?s2
              = (Inr (?ts\<lparr>price := JFloat 1\<rparr>), save (?ts\<lparr>price := JFloat 1\<rparr>) ?s2)"
    by (simp add: update_price_cases [OF aggregated_stable])
  have fc: "from_chain ex_settings ?w ''0xs'' ?s1 = (Inr (?ts\<lparr>price := JFloat 1\<rparr>), ?s3)"
    by (simp add: from_chain.simps Let_def us)
  have f: "find_token ex_settings ?w (Some (STABLE_TOKEN_ADDRESS ex_settings)) ?s1
             = (Inr (Some (?ts\<lparr>price := JFloat 1\<rparr>)), ?s3)"
    by (simp add: find_token.simps fc)
  have n: "address ?ta \<noteq> STABLE_TOKEN_ADDRESS ex_settings" by simp
  have p: "py_pow10 (decimals ?ta) = Inr (JInt (10 ^ 6))" by simp
  have c: "chain_price_in_stables ex_settings ?w ?ta ?s1
             = (Inr (JFloat 2.5), emit (RouterCall (JInt (10 ^ 6)) ''0xa'' ''0xs'') ?s3)"
    using chain_price_cases [OF n f p] truediv_scale [of 2500000 6] by simp
  have u: "update_price ex_settings ?w ?ta ?s0
             = (Inr (?ta\<lparr>price := JFloat 2.5\<rparr>),
                save (?ta\<lparr>price := JFloat 2.5\<rparr>)
                  (emit (RouterCall (JInt (10 ^ 6)) ''0xa'' ''0xs'') ?s3))"
    by (simp add: update_price_cases [OF a] chain_price_ignores_price c)
  have "from_chain ex_settings ?w ''0xa'' empty_state
          = (Inr (?ta\<lparr>price := JFloat 2.5\<rparr>),
             emit (LogDebug ''Fetched'')
               (save (?ta\<lparr>price := JFloat 2.5\<rparr>)
                  (emit (RouterCall (JInt (10 ^ 6)) ''0xa'' ''0xs'') ?s3)))"
    by (simp add: from_chain.simps Let_def u)
  then show ?thesis by (simp add: find_token.simps)
qed

text \<open>
  Claim C6 does not hold as stated: a lookup of an address that is not in the cache can
  create two records. Here the cache is empty, the screener and the oracle have no data
  for \<open>0xa\<close>, so the router pass looks the stable token \<open>0xs\<close> up and creates its
  record as well.
\<close>

theorem find_token_creates_two:
  "dom (store empty_state) = {}
   \<and> dom (store (snd (find_token ex_settings
        (chain_world (market_world ''0xa'' no_pairs no_coins) (Inr (2500000, False)) 6)
        (Some ''0xA'') empty_state))) = {''0xa'', ''0xs''}
   \<and> ''0xa'' \<noteq> ''0xs''"
  by (auto simp: ex_new_keys_eval new_token_def split: if_splits)

text \<open>
  Claim C6 as amended. \<open>find\<close> of \<open>None\<close> returns \<open>None\<close> and leaves the state as it
  is. \<open>find\<close> of an address whose lower-cased form is in the cache returns the stored
  record and leaves the state as it is: no call is made and no price is resolved.
  \<open>find\<close> of an address that is not in the cache, when it returns, has read name, symbol
  and decimals from chain, returns the record made of them with the price the update
  resolved for it, and has stored that record under the lower-cased address; the only
  other record it can have added is that of the stable token.
\<close>

theorem find_token_cases:
  "find_token cfg env None s = (Inr None, s)
   \<and> (store s (str_lower a) = Some t \<longrightarrow> find_token cfg env (Some a) s = (Inr (Some t), s))
   \<and> (store s (str_lower a) = None \<and> find_token cfg env (Some a) s = (Inr r, s') \<longrightarrow>
        (\<exists>n sy d t'.
            multicall_identity env (str_lower a) = Inr (n, sy, d)
            \<and> r = Some t'
            \<and> t' = (new_token (str_lower a) n sy d)\<lparr>price := price t'\<rparr>
            \<and> fst (update_price cfg env (new_token (str_lower a) n sy d)
                      (save (new_token (str_lower a) n sy d)
                         (emit (MulticallCall (str_lower a)) s))) = Inr t'
            \<and> store s' (str_lower a) = Some t'
            \<and> dom (store s')
                \<subseteq> dom (store s) \<union> {str_lower a, str_lower (STABLE_TOKEN_ADDRESS cfg)}))"
proof (intro conjI impI)
  show "find_token cfg env None s = (Inr None, s)"
    by (simp add: find_token.simps)
next
  assume "store s (str_lower a) = Some t"
  then show "find_token cfg env (Some a) s = (Inr (Some t), s)"
    by (rule find_token_hit)
next
  assume h: "store s (str_lower a) = None \<and> find_token cfg env (Some a) s = (Inr r, s')"
  then have m: "store s (str_lower a) = None"
    and f: "find_token cfg env (Some a) s = (Inr r, s')" by blast+
  from find_token_miss [OF m f] obtain n sy d t' s2 where
    mc: "multicall_identity env (str_lower a) = Inr (n, sy, d)"
    and u: "update_price cfg env (new_token (str_lower a) n sy d)
              (save (new_token (str_lower a) n sy d) (emit (MulticallCall (str_lower a)) s))
            = (Inr t', s2)"
    and r: "r = Some t'" and s': "s' = emit (LogDebug ''Fetched'') s2"
    by blast
  from update_price_frame [OF u]
  have t': "t' = (new_token (str_lower a) n sy d)\<lparr>price := price t'\<rparr>"
    and st: "store s' (str_lower a) = Some t'"
    by (simp_all add: s' new_token_def)
  from new_keys(3) [of cfg env "Some a" s] f
  have "dom (store s') \<subseteq> dom (store s) \<union> {str_lower a, str_lower (STABLE_TOKEN_ADDRESS cfg)}"
    by auto
  with mc u r t' st
  show "\<exists>n sy d t'.
            multicall_identity env (str_lower a) = Inr (n, sy, d)
            \<and> r = Some t'
            \<and> t' = (new_token (str_lower a) n sy d)\<lparr>price := price t'\<rparr>
            \<and> fst (update_price cfg env (new_token (str_lower a) n sy d)
                      (save (new_token (str_lower a) n sy d)
                         (emit (MulticallCall (str_lower a)) s))) = Inr t'
            \<and> store s' (str_lower a) = Some t'
            \<and> dom (store s')
                \<subseteq> dom (store s) \<union> {str_lower a, str_lower (STABLE_TOKEN_ADDRESS cfg)}"
    by (intro exI [of _ n] exI [of _ sy] exI [of _ d] exI [of _ t']) simp
qed

theorem find_token_cases_witness:
  "find_token ex_settings world_down None stable_state = (Inr None, stable_state)
   \<and> find_token ex_settings world_down (Some ''0xS'') stable_state
       = (Inr (Some (new_token ''0xs'' ''Stable'' ''USD'' 6)), stable_state)
   \<and> (\<exists>t'. fst (find_token ex_settings
                  (chain_world (market_world ''0xa'' no_pairs no_coins) (Inr (2500000, False)) 6)
                  (Some ''0xA'') empty_state) = Inr (Some t')
           \<and> t' = (new_token ''0xa'' ''Coin'' ''CN'' 6)\<lparr>price := price t'\<rparr>
           \<and> store (snd (find_token ex_settings
                  (chain_world (market_world ''0xa'' no_pairs no_coins) (Inr (2500000, False)) 6)
                  (Some ''0xA'') empty_state)) ''0xa'' = Some t')"
proof -
  let ?w = "chain_world (market_world ''0xa'' no_pairs no_coins) (Inr (2500000, False)) 6"
  let ?r = "Some ((new_token ''0xa'' ''Coin'' ''CN'' 6)\<lparr>price := JFloat 2.5\<rparr>)"
  have h: "store stable_state (str_lower ''0xS'') = Some (new_token ''0xs'' ''Stable'' ''USD'' 6)"
    by (simp add: str_lower_def char_lower_def)
  from find_token_cases [of ex_settings world_down stable_state "''0xS''"
      "new_token ''0xs'' ''Stable'' ''USD'' 6"] h
  have 1: "find_token ex_settings world_down None stable_state = (Inr None, stable_state)"
    and 2: "find_token ex_settings world_down (Some ''0xS'') stable_state
       = (Inr (Some (new_token ''0xs'' ''Stable'' ''USD'' 6)), stable_state)"
    by blast+
  obtain s' where e: "find_token ex_settings ?w (Some ''0xA'') empty_state = (Inr ?r, s')"
    using ex_new_keys_eval by simp
  have m: "store empty_state (str_lower ''0xA'') = None \<and>
           find_token ex_settings ?w (Some ''0xA'') empty_state = (Inr ?r, s')"
    using e by simp
  from find_token_cases [of ex_settings ?w empty_state "''0xA''" _ ?r s'] m
  obtain n sy d t' where
    "multicall_identity ?w (str_lower ''0xA'') = Inr (n, sy, d)"
    "?r = Some t'"
    "t' = (new_token (str_lower ''0xA'') n sy d)\<lparr>price := price t'\<rparr>"
    "store s' (str_lower ''0xA'') = Some t'"
    by blast
  then have 3: "\<exists>t'. fst (find_token ex_settings ?w (Some ''0xA'') empty_state) = Inr (Some t')
           \<and> t' = (new_token ''0xa'' ''Coin'' ''CN'' 6)\<lparr>price := price t'\<rparr>
           \<and> store (snd (find_token ex_settings ?w (Some ''0xA'') empty_state)) ''0xa'' = Some t'"
    using e by auto
  from 1 2 3 show ?thesis by blast
qed

section \<open>Ingestion\<close>

text \<open>No function removes an event from the trace.\<close>

lemma dexscreener_trace_mono:
  "set (trace s) \<subseteq> set (trace (snd (dexscreener_price_in_stables cfg env self s)))"
  by (auto simp: dexscreener_price_in_stables_def Let_def split: sum.splits list.splits)

lemma defillama_trace_mono:
  "set (trace s) \<subseteq> set (trace (snd (defillama_price_in_stables cfg env self s)))"
  by (auto simp: defillama_price_in_stables_def Let_def split: sum.splits list.splits)

lemma aggregated_trace_mono:
  "set (trace s) \<subseteq> set (trace (snd (aggregated_price_in_stables cfg env self s)))"
proof -
  obtain r s1 where d: "dexscreener_price_in_stables cfg env self s = (r, s1)"
    by (cases "dexscreener_price_in_stables cfg env self s")
  with dexscreener_trace_mono [of s cfg env self]
  have 1: "set (trace s) \<subseteq> set (trace s1)" by simp
  have 2: "set (trace s1) \<subseteq> set (trace (snd (defillama_price_in_stables cfg env self s1)))"
    by (rule defillama_trace_mono)
  from 1 2 show ?thesis
    by (auto simp: aggregated_cases [OF d] split: sum.splits)
qed

lemma trace_mono:
  shows "set (trace s) \<subseteq> set (trace (snd (update_price cfg env self s)))"
    and "set (trace s') \<subseteq> set (trace (snd (chain_price_in_stables cfg env self' s')))"
    and "set (trace s'') \<subseteq> set (trace (snd (find_token cfg env addr s'')))"
    and "set (trace s''') \<subseteq> set (trace (snd (from_chain cfg env a s''')))"
proof (induction cfg env self s and cfg env self' s' and cfg env addr s'' and cfg env a s'''
    rule: update_price_chain_price_in_stables_find_token_from_chain.induct)
  case (1 cfg env self s)
  obtain r s1 where a: "aggregated_price_in_stables cfg env self s = (r, s1)"
    by (cases "aggregated_price_in_stables cfg env self s")
  from aggregated_trace_mono [of s cfg env self] a
  have s1: "set (trace s) \<subseteq> set (trace s1)" by simp
  show ?case
  proof (cases r)
    case (Inl e)
    with s1 show ?thesis by (auto simp: update_price_cases [OF a])
  next
    case (Inr p)
    show ?thesis
    proof (cases "py_eq_int p 0")
      case False
      with Inr s1 show ?thesis by (auto simp: update_price_cases [OF a])
    next
      case True
      from 1 [OF a [symmetric] Inr True] s1
      have "set (trace s)
              \<subseteq> set (trace (snd (chain_price_in_stables cfg env (self\<lparr>price := p\<rparr>) s1)))"
        by blast
      with Inr True show ?thesis
        by (cases "chain_price_in_stables cfg env (self\<lparr>price := p\<rparr>) s1")
           (auto simp: update_price_cases [OF a] split: sum.splits)
    qed
  qed
next
  case (2 cfg env self s)
  show ?case
  proof (cases "address self = STABLE_TOKEN_ADDRESS cfg")
    case True
    then show ?thesis by (auto simp: chain_price_in_stables.simps)
  next
    case False
    obtain rf s1 where f: "find_token cfg env (Some (STABLE_TOKEN_ADDRESS cfg)) s = (rf, s1)"
      by (cases "find_token cfg env (Some (STABLE_TOKEN_ADDRESS cfg)) s")
    from 2 [OF False] f have "set (trace s) \<subseteq> set (trace s1)" by simp
    moreover have "set (trace s1) \<subseteq> set (trace (snd (chain_price_in_stables cfg env self s)))"
      using False f
      by (auto simp: chain_price_in_stables.simps Let_def
          split: sum.splits option.splits prod.splits)
    ultimately show ?thesis by blast
  qed
next
  case (3 cfg env addr s)
  show ?case
  proof (cases addr)
    case None
    then show ?thesis by (auto simp: find_token.simps)
  next
    case (Some a)
    show ?thesis
    proof (cases "store s (str_lower a)")
      case None
      from 3 [OF Some None]
      have "set (trace s) \<subseteq> set (trace (snd (from_chain cfg env (str_lower a) s)))" .
      with Some None show ?thesis
        by (cases "from_chain cfg env (str_lower a) s")
           (auto simp: find_token.simps split: sum.splits)
    next
      case (Some t)
      with \<open>addr = Some a\<close> show ?thesis by (auto simp: find_token.simps)
    qed
  qed
next
  case (4 cfg env addr s)
  let ?a = "str_lower addr"
  let ?s1 = "emit (MulticallCall ?a) s"
  show ?case
  proof (cases "multicall_identity env ?a")
    case (Inl e)
    then show ?thesis by (auto simp: from_chain.simps Let_def)
  next
    case (Inr b)
    obtain n sy d where b: "b = (n, sy, d)" by (cases b) auto
    from 4 [OF refl refl Inr, of n "(sy, d)" sy d] b
    have "set (trace s)
            \<subseteq> set (trace (snd (update_price cfg env (new_token ?a n sy d)
                              (save (new_token ?a n sy d) ?s1))))"
      by auto
    with Inr b show ?thesis
      by (cases "update_price cfg env (new_token ?a n sy d) (save (new_token ?a n sy d) ?s1)")
         (auto simp: from_chain.simps Let_def split: sum.splits)
  qed
qed

lemma entry_kwargs_state:
  "snd (entry_kwargs cfg c td s) = s
   \<or> snd (entry_kwargs cfg c td s) = emit (LogDebug ''Token not in chain'') s"
  unfolding entry_kwargs_def Let_def
  by (simp split: sum.split json.split)

lemma entry_load_trace_mono:
  "set (trace s) \<subseteq> set (trace (snd (entry_load cfg env addr kvs s)))"
proof -
  have u: "set (trace s) \<subseteq> set (trace (snd (update_price cfg env t (save t0 s))))" for t t0
    using trace_mono(1) [of "save t0 s" cfg env t] by simp
  have tail: "set (trace s) \<subseteq> set (trace (snd
      (case update_price cfg env t (save t0 s) of
         (Inl e, s2) \<Rightarrow> (Inl e, s2)
       | (Inr t', s2) \<Rightarrow> (Inr (), emit (LogDebug ''Loaded'') s2))))" for t t0
    using u [of t t0]
    by (cases "update_price cfg env t (save t0 s)") (auto split: sum.splits)
  show ?thesis
    unfolding entry_load_def Let_def
    using tail by (simp split: sum.split)
qed

lemma tokenlist_entry_trace_mono:
  "set (trace s) \<subseteq> set (trace (snd (tokenlist_entry cfg env c td s)))"
proof -
  obtain r s1 where k: "entry_kwargs cfg c td s = (r, s1)"
    by (cases "entry_kwargs cfg c td s")
  with entry_kwargs_state [of cfg c td s] have "set (trace s) \<subseteq> set (trace s1)"
    by auto
  with entry_load_trace_mono [of s1 cfg env] k show ?thesis
    by (auto simp: tokenlist_entry_def split: sum.splits option.splits)
qed

lemma tokenlist_entries_trace_mono:
  "set (trace s) \<subseteq> set (trace (snd (tokenlist_entries cfg env c tds s)))"
proof (induction tds arbitrary: s)
  case Nil
  show ?case by simp
next
  case (Cons td tds)
  obtain r s1 where e: "tokenlist_entry cfg env c td s = (r, s1)"
    by (cases "tokenlist_entry cfg env c td s")
  with tokenlist_entry_trace_mono [of s cfg env c td]
  have "set (trace s) \<subseteq> set (trace s1)" by simp
  with Cons [of s1] e show ?case by (cases r) auto
qed

lemma tokenlist_feed_trace:
  "set (trace s) \<union> {HttpGet u} \<subseteq> set (trace (snd (tokenlist_feed cfg env c u s)))"
  using tokenlist_entries_trace_mono [of "emit (HttpGet u) s" cfg env c]
  by (auto simp: tokenlist_feed_def Let_def split: sum.splits)

lemma tokenlist_feeds_trace_mono:
  "set (trace s) \<subseteq> set (trace (tokenlist_feeds cfg env c us s))"
proof (induction us arbitrary: s)
  case Nil
  show ?case by simp
next
  case (Cons u us)
  obtain r s1 where f: "tokenlist_feed cfg env c u s = (r, s1)"
    by (cases "tokenlist_feed cfg env c u s")
  with tokenlist_feed_trace [of s u cfg env c]
  have "set (trace s) \<subseteq> set (trace s1)" by simp
  with Cons [of s1] Cons [of "emit (LogError e) s1" for e] f show ?case
    by (cases r) (auto; blast)+
qed

lemma tokenlist_feeds_fetch_all:
  "\<forall>u\<in>set us. HttpGet u \<in> set (trace (tokenlist_feeds cfg env c us s))"
proof (induction us arbitrary: s)
  case Nil
  show ?case by simp
next
  case (Cons u us)
  obtain r s1 where f: "tokenlist_feed cfg env c u s = (r, s1)"
    by (cases "tokenlist_feed cfg env c u s")
  with tokenlist_feed_trace [of s u cfg env c]
  have h: "HttpGet u \<in> set (trace s1)" by simp
  show ?case
  proof (cases r)
    case (Inl e)
    from h have "HttpGet u \<in> set (trace (emit (LogError e) s1))" by simp
    with tokenlist_feeds_trace_mono [of "emit (LogError e) s1" cfg env c us]
    have "HttpGet u \<in> set (trace (tokenlist_feeds cfg env c us (emit (LogError e) s1)))"
      by blast
    with Cons [of "emit (LogError e) s1"] f Inl show ?thesis by simp
  next
    case (Inr x)
    from h tokenlist_feeds_trace_mono [of s1 cfg env c us]
    have "HttpGet u \<in> set (trace (tokenlist_feeds cfg env c us s1))" by blast
    with Cons [of s1] f Inr show ?thesis by simp
  qed
qed

lemma feed_world_simps [simp]:
  "http_get_json (feed_world doc) ''feed'' = Inr doc"
  "http_get_json (feed_world doc) (DEXSCREENER_ENDPOINT @ ''0xa'') = Inr (one_pair ''2'')"
  "eth_chain_id (feed_world doc) = Inr 2222"
  by (simp_all add: feed_world_def DEXSCREENER_ENDPOINT_def)

lemma good_entry_kwargs:
  "entry_kwargs ex_settings 2222 good_entry s = (Inr (Some (''0xa'', good_kwargs)), s)"
  by (simp add: entry_kwargs_def good_entry_def good_kwargs_def ex_settings_def Let_def)

lemma bad_entry_kwargs:
  "entry_kwargs ex_settings 2222 bad_entry s = (Inl KeyError, s)"
  by (simp add: entry_kwargs_def bad_entry_def)

lemma good_token:
  "address (token_of_kwargs ''0xa'' good_kwargs) = ''0xa''"
  by (simp add: token_of_kwargs_def)

lemma good_entry_load:
  "entry_load ex_settings (feed_world doc) ''0xa'' good_kwargs s
   = (Inr (),
      emit (LogDebug ''Loaded'')
        (save ((token_of_kwargs ''0xa'' good_kwargs)\<lparr>stable := JInt 1, price := JFloat 2\<rparr>)
          (emit (HttpGet (DEXSCREENER_ENDPOINT @ ''0xa''))
            (save (token_of_kwargs ''0xa'' good_kwargs) s))))"
proof -
  let ?t = "(token_of_kwargs ''0xa'' good_kwargs)\<lparr>stable := JInt 1\<rparr>"
  let ?s1 = "save (token_of_kwargs ''0xa'' good_kwargs) s"
  have d: "dexscreener_price_in_stables ex_settings (feed_world doc) ?t ?s1
             = (Inr (JFloat 2), emit (HttpGet (DEXSCREENER_ENDPOINT @ ''0xa'')) ?s1)"
    using dexscreener_one_pair [of "''0xa''" ex_settings "feed_world doc" "''2''" ?t ?s1]
    by (simp add: pair_price_two good_token)
  have a: "aggregated_price_in_stables ex_settings (feed_world doc) ?t ?s1
             = (Inr (JFloat 2), emit (HttpGet (DEXSCREENER_ENDPOINT @ ''0xa'')) ?s1)"
    by (simp add: aggregated_cases [OF d] good_token)
  have u: "update_price ex_settings (feed_world doc) ?t ?s1
             = (Inr (?t\<lparr>price := JFloat 2\<rparr>),
                save (?t\<lparr>price := JFloat 2\<rparr>)
                  (emit (HttpGet (DEXSCREENER_ENDPOINT @ ''0xa'')) ?s1))"
    by (simp add: update_price_cases [OF a])
  have g: "map_of good_kwargs ''tags'' = Some (JArr [JStr ''stablecoin''])"
    by (simp add: good_kwargs_def)
  show ?thesis
    by (simp add: entry_load_def Let_def g u)
qed

lemma good_entry_alone:
  "tokenlist_entry ex_settings (feed_world doc) 2222 good_entry s
   = (Inr (),
      emit (LogDebug ''Loaded'')
        (save ((token_of_kwargs ''0xa'' good_kwargs)\<lparr>stable := JInt 1, price := JFloat 2\<rparr>)
          (emit (HttpGet (DEXSCREENER_ENDPOINT @ ''0xa''))
            (save (token_of_kwargs ''0xa'' good_kwargs) s))))"
  by (simp add: tokenlist_entry_def good_entry_kwargs good_entry_load)

lemma bad_entry_raises:
  "tokenlist_entry ex_settings env 2222 bad_entry s = (Inl KeyError, s)"
  by (simp add: tokenlist_entry_def bad_entry_kwargs)

lemma ex_tokenlists [simp]: "TOKENLISTS ex_settings = [''feed'']"
  by (simp add: ex_settings_def)

text \<open>
  Claim C9 does not hold as stated: the \<open>try\<close> block encloses the whole inner loop. With
  the feed \<open>[bad_entry, good_entry]\<close> the error of the first entry is logged and the
  second entry is not processed: no record for \<open>0xa\<close> is created, although the feed
  \<open>[good_entry]\<close> creates it.
\<close>

theorem entry_failure_skips_rest_of_feed:
  "store (snd (from_tokenlists ex_settings (feed_world (feed_of [bad_entry, good_entry]))
                 empty_state)) ''0xa'' = None
   \<and> trace (snd (from_tokenlists ex_settings (feed_world (feed_of [bad_entry, good_entry]))
                 empty_state)) = [ChainIdRead, HttpGet ''feed'', LogError KeyError]
   \<and> store (snd (from_tokenlists ex_settings (feed_world (feed_of [good_entry]))
                 empty_state)) ''0xa''
       = Some ((token_of_kwargs ''0xa'' good_kwargs)\<lparr>stable := JInt 1, price := JFloat 2\<rparr>)"
proof -
  have 1: "from_tokenlists ex_settings (feed_world (feed_of [bad_entry, good_entry])) empty_state
             = (Inr (), emit (LogError KeyError) (emit (HttpGet ''feed'') (emit ChainIdRead empty_state)))"
    by (simp add: from_tokenlists_def tokenlist_feed_def feed_of_def Let_def bad_entry_raises)
  have 2: "from_tokenlists ex_settings (feed_world (feed_of [good_entry])) empty_state
             = (Inr (),
                emit (LogDebug ''Loaded'')
                  (save ((token_of_kwargs ''0xa'' good_kwargs)\<lparr>stable := JInt 1, price := JFloat 2\<rparr>)
                    (emit (HttpGet (DEXSCREENER_ENDPOINT @ ''0xa''))
                      (save (token_of_kwargs ''0xa'' good_kwargs)
                        (emit (HttpGet ''feed'') (emit ChainIdRead empty_state))))))"
    by (simp add: from_tokenlists_def tokenlist_feed_def feed_of_def Let_def good_entry_alone)
  show ?thesis
    unfolding 1 2 by (simp add: good_token)
qed

text \<open>
  Claim C9 as amended. An exception while processing an entry ends the loop over the
  entries of that feed: the remaining entries of the same feed are not processed. An
  exception while processing a feed, in the download or in one of its entries, is logged
  and ingestion continues with the next feed. Once the chain id is read,
  \<open>from_tokenlists\<close> returns normally and every configured feed has been requested.
\<close>

theorem ingestion_continues_with_next_feed:
  "(tokenlist_entry cfg env c td s = (Inl e, s1) \<longrightarrow>
      tokenlist_entries cfg env c (td # rest) s = (Inl e, s1))
   \<and> (tokenlist_feed cfg env c u s = (Inl e, s1) \<longrightarrow>
        tokenlist_feeds cfg env c (u # us) s
          = tokenlist_feeds cfg env c us (emit (LogError e) s1)
        \<and> LogError e \<in> set (trace (tokenlist_feeds cfg env c (u # us) s)))
   \<and> (eth_chain_id env = Inr c \<longrightarrow>
        fst (from_tokenlists cfg env s) = Inr ()
        \<and> (\<forall>u\<in>set (TOKENLISTS cfg).
              HttpGet u \<in> set (trace (snd (from_tokenlists cfg env s)))))"
proof (intro conjI impI)
  assume "tokenlist_entry cfg env c td s = (Inl e, s1)"
  then show "tokenlist_entries cfg env c (td # rest) s = (Inl e, s1)" by simp
next
  assume f: "tokenlist_feed cfg env c u s = (Inl e, s1)"
  then show "tokenlist_feeds cfg env c (u # us) s
               = tokenlist_feeds cfg env c us (emit (LogError e) s1)"
    by simp
next
  assume f: "tokenlist_feed cfg env c u s = (Inl e, s1)"
  have "LogError e \<in> set (trace (emit (LogError e) s1))" by simp
  with tokenlist_feeds_trace_mono [of "emit (LogError e) s1" cfg env c us]
  have "LogError e \<in> set (trace (tokenlist_feeds cfg env c us (emit (LogError e) s1)))"
    by blast
  with f show "LogError e \<in> set (trace (tokenlist_feeds cfg env c (u # us) s))" by simp
next
  assume "eth_chain_id env = Inr c"
  then show "fst (from_tokenlists cfg env s) = Inr ()"
    by (simp add: from_tokenlists_def Let_def)
next
  assume c: "eth_chain_id env = Inr c"
  from tokenlist_feeds_fetch_all [of "TOKENLISTS cfg" cfg env c "emit ChainIdRead s"] c
  show "\<forall>u\<in>set (TOKENLISTS cfg). HttpGet u \<in> set (trace (snd (from_tokenlists cfg env s)))"
    by (simp add: from_tokenlists_def Let_def)
qed

theorem ingestion_continues_with_next_feed_witness:
  "tokenlist_entries ex_settings (feed_world (feed_of [bad_entry, good_entry])) 2222
      [bad_entry, good_entry] empty_state = (Inl KeyError, empty_state)
   \<and> LogError KeyError
       \<in> set (trace (tokenlist_feeds ex_settings (feed_world (feed_of [bad_entry, good_entry]))
                        2222 [''feed'', ''feed''] empty_state))
   \<and> fst (from_tokenlists ex_settings (feed_world (feed_of [bad_entry, good_entry])) empty_state)
       = Inr ()
   \<and> HttpGet ''feed''
       \<in> set (trace (snd (from_tokenlists ex_settings
                              (feed_world (feed_of [bad_entry, good_entry])) empty_state)))"
proof -
  let ?w = "feed_world (feed_of [bad_entry, good_entry])"
  have e: "tokenlist_entry ex_settings ?w 2222 bad_entry empty_state = (Inl KeyError, empty_state)"
    by (rule bad_entry_raises)
  have f: "tokenlist_feed ex_settings ?w 2222 ''feed'' empty_state
             = (Inl KeyError, emit (HttpGet ''feed'') empty_state)"
    by (simp add: tokenlist_feed_def feed_of_def Let_def bad_entry_raises)
  have c: "eth_chain_id ?w = Inr 2222" by simp
  from ingestion_continues_with_next_feed [where cfg = ex_settings and env = ?w and c = 2222
      and td = bad_entry and s = empty_state and e = KeyError and ?s1.0 = empty_state
      and rest = "[good_entry]"] e
  have 1: "tokenlist_entries ex_settings ?w 2222 [bad_entry, good_entry] empty_state
             = (Inl KeyError, empty_state)"
    by blast
  from ingestion_continues_with_next_feed [where cfg = ex_settings and env = ?w and c = 2222
      and e = KeyError and u = "''feed''" and s = empty_state
      and ?s1.0 = "emit (HttpGet ''feed'') empty_state" and us = "[''feed'']"] f
  have 2: "LogError KeyError
       \<in> set (trace (tokenlist_feeds ex_settings ?w 2222 [''feed'', ''feed''] empty_state))"
    by blast
  from ingestion_continues_with_next_feed [where cfg = ex_settings and env = ?w and c = 2222
      and s = empty_state] c
  have 3: "fst (from_tokenlists ex_settings ?w empty_state) = Inr ()"
    and 4: "\<forall>u\<in>set (TOKENLISTS ex_settings).
              HttpGet u \<in> set (trace (snd (from_tokenlists ex_settings ?w empty_state)))"
    by blast+
  from 4 have "HttpGet ''feed''
       \<in> set (trace (snd (from_tokenlists ex_settings ?w empty_state)))"
    by simp
  with 1 2 3 show ?thesis by blast
qed

end
